theory Spec2Isabelle
  imports Complex_Main "HOL-Library.Word" "HOL-Library.Monad_Syntax"
begin

section \<open>The legacy distribution sampler (distributions-boxmuller.c)\<close>

subsection \<open>Double arithmetic\<close>

text \<open>
  The C code computes on \<^verbatim>\<open>double\<close>. What the properties below are about is the control
  flow of the samplers: which test selects which branch, and in which order uniforms are
  drawn. The arithmetic itself is therefore a parameter: a record of the operations of the
  platform's \<^verbatim>\<open>double\<close> type on a carrier \<open>'d\<close>. Every definition follows the C expression
  it stands for operator by operator, and every theorem holds for each such record, the
  IEEE-754 one included.

  \<open>lit\<close> is the value of a numeric constant of the source text, \<open>of_long\<close> the conversion of
  a C \<^verbatim>\<open>long\<close>, \<open>NPY_NAN\<close> the NaN constant of the numpy headers, \<open>fisnan\<close> is
  \<^verbatim>\<open>npy_isnan\<close>.
\<close>

record 'd fpu =
  lit :: "real \<Rightarrow> 'd"
  of_long :: "int \<Rightarrow> 'd"
  fadd :: "'d \<Rightarrow> 'd \<Rightarrow> 'd"
  fsub :: "'d \<Rightarrow> 'd \<Rightarrow> 'd"
  fmul :: "'d \<Rightarrow> 'd \<Rightarrow> 'd"
  fdiv :: "'d \<Rightarrow> 'd \<Rightarrow> 'd"
  fneg :: "'d \<Rightarrow> 'd"
  fsqrt :: "'d \<Rightarrow> 'd"
  flog :: "'d \<Rightarrow> 'd"
  fpow :: "'d \<Rightarrow> 'd \<Rightarrow> 'd"
  feq :: "'d \<Rightarrow> 'd \<Rightarrow> bool"
  flt :: "'d \<Rightarrow> 'd \<Rightarrow> bool"
  fle :: "'d \<Rightarrow> 'd \<Rightarrow> bool"
  fge :: "'d \<Rightarrow> 'd \<Rightarrow> bool"
  fisnan :: "'d \<Rightarrow> bool"
  NPY_NAN :: "'d"

text \<open>
  The facts about NaN that the noncentral chi-square claim appeals to: a comparison with a
  NaN operand is false, and \<open>sqrt\<close>, \<open>+\<close> and \<open>*\<close> propagate NaN.
\<close>

definition nan_laws :: "'d fpu \<Rightarrow> bool" where
  "nan_laws fp \<longleftrightarrow>
     fisnan fp (NPY_NAN fp) \<and>
     (\<forall>x y. fisnan fp x \<longrightarrow> \<not> feq fp x y) \<and>
     (\<forall>x. fisnan fp x \<longrightarrow> fisnan fp (fsqrt fp x)) \<and>
     (\<forall>x y. fisnan fp y \<longrightarrow> fisnan fp (fadd fp x y)) \<and>
     (\<forall>x. fisnan fp x \<longrightarrow> fisnan fp (fmul fp x x))"

text \<open>
  An instance used to run the definitions on concrete inputs: exact real arithmetic, with
  one extra value for the result of an undefined operation.
\<close>

datatype exact = Num real | NotANumber

fun lift1 :: "(real \<Rightarrow> real) \<Rightarrow> exact \<Rightarrow> exact" where
  "lift1 f (Num x) = Num (f x)"
| "lift1 f NotANumber = NotANumber"

fun lift2 :: "(real \<Rightarrow> real \<Rightarrow> real) \<Rightarrow> exact \<Rightarrow> exact \<Rightarrow> exact" where
  "lift2 f (Num x) (Num y) = Num (f x y)"
| "lift2 f _ _ = NotANumber"

fun cmp2 :: "(real \<Rightarrow> real \<Rightarrow> bool) \<Rightarrow> exact \<Rightarrow> exact \<Rightarrow> bool" where
  "cmp2 f (Num x) (Num y) = f x y"
| "cmp2 f _ _ = False"

fun exact_div :: "exact \<Rightarrow> exact \<Rightarrow> exact" where
  "exact_div (Num x) (Num y) = (if y = 0 then NotANumber else Num (x / y))"
| "exact_div _ _ = NotANumber"

fun exact_sqrt :: "exact \<Rightarrow> exact" where
  "exact_sqrt (Num x) = (if x < 0 then NotANumber else Num (sqrt x))"
| "exact_sqrt NotANumber = NotANumber"

fun exact_log :: "exact \<Rightarrow> exact" where
  "exact_log (Num x) = (if x \<le> 0 then NotANumber else Num (ln x))"
| "exact_log NotANumber = NotANumber"

fun exact_pow :: "exact \<Rightarrow> exact \<Rightarrow> exact" where
  "exact_pow (Num x) (Num y) = (if x < 0 then NotANumber else Num (x powr y))"
| "exact_pow _ _ = NotANumber"

fun exact_isnan :: "exact \<Rightarrow> bool" where
  "exact_isnan (Num x) = False"
| "exact_isnan NotANumber = True"

definition exact_fpu :: "exact fpu" where
  "exact_fpu =
     \<lparr>lit = Num, of_long = (\<lambda>i. Num (of_int i)),
      fadd = lift2 (+), fsub = lift2 (-), fmul = lift2 (*), fdiv = exact_div,
      fneg = lift1 uminus, fsqrt = exact_sqrt, flog = exact_log, fpow = exact_pow,
      feq = cmp2 (=), flt = cmp2 (<), fle = cmp2 (\<le>), fge = cmp2 (\<ge>),
      fisnan = exact_isnan, NPY_NAN = NotANumber\<rparr>"

subsection \<open>The BRNG handle and the augmented state\<close>

text \<open>
  \<^verbatim>\<open>brng_t\<close> holds an opaque state pointer and function slots; this file calls only
  \<^verbatim>\<open>next_double\<close>. A call through the slot reads and updates the state block, so the slot
  is a function from the state to the value drawn and the new state.
  \<^verbatim>\<open>aug_brng_t\<close> adds the cached second Gaussian deviate.
\<close>

record ('s, 'd) brng_t =
  state :: 's
  next_double :: "'s \<Rightarrow> 'd \<times> 's"

record ('s, 'd) aug_brng_t =
  basicrng :: "('s, 'd) brng_t"
  has_gauss :: bool
  gauss :: 'd

definition legacy_double :: "('s, 'd) aug_brng_t \<Rightarrow> 'd \<times> ('s, 'd) aug_brng_t" where
  "legacy_double aug_state =
     (let b = basicrng aug_state;
          (u, s') = next_double b (state b)
      in (u, aug_state\<lparr>basicrng := b\<lparr>state := s'\<rparr>\<rparr>))"

subsection \<open>Loops\<close>

text \<open>
  The rejection loops of the samplers have no bound: on a generator that keeps producing
  rejected values they run forever. A loop is given by its body, which either leaves the
  loop with a result (\<open>Inl\<close>), goes round again with a new state (\<open>Inr\<close>), or does not
  return itself (\<open>None\<close>); the loop as a whole returns \<open>None\<close> when it does not terminate.
\<close>

partial_function (option) repeat_loop :: "('s \<Rightarrow> ('r + 's) option) \<Rightarrow> 's \<Rightarrow> 'r option" where
  "repeat_loop body s =
     (case body s of
        None \<Rightarrow> None
      | Some (Inl r) \<Rightarrow> Some r
      | Some (Inr s') \<Rightarrow> repeat_loop body s')"

text \<open>\<open>passes body n s\<close> is the state after \<open>n\<close> passes through the body that all went round again.\<close>

fun passes :: "('s \<Rightarrow> ('r + 's) option) \<Rightarrow> nat \<Rightarrow> 's \<Rightarrow> 's option" where
  "passes body 0 s = Some s"
| "passes body (Suc n) s =
     (case body s of Some (Inr s') \<Rightarrow> passes body n s' | _ \<Rightarrow> None)"

subsection \<open>legacy_gauss\<close>

text \<open>
  One pass through the \<^verbatim>\<open>do ... while (r2 >= 1.0 || r2 == 0.0)\<close> loop: two uniforms,
  \<open>x1\<close> from the first and \<open>x2\<close> from the second.
\<close>

definition legacy_gauss_pass ::
  "'d fpu \<Rightarrow> ('s, 'd) aug_brng_t \<Rightarrow> ('d \<times> 'd \<times> 'd \<times> ('s, 'd) aug_brng_t) + ('s, 'd) aug_brng_t" where
  "legacy_gauss_pass fp aug_state =
     (let (u1, a1) = legacy_double aug_state;
          x1 = fsub fp (fmul fp (lit fp 2) u1) (lit fp 1);
          (u2, a2) = legacy_double a1;
          x2 = fsub fp (fmul fp (lit fp 2) u2) (lit fp 1);
          r2 = fadd fp (fmul fp x1 x1) (fmul fp x2 x2)
      in if fge fp r2 (lit fp 1) \<or> feq fp r2 (lit fp 0) then Inr a2
         else Inl (x1, x2, r2, a2))"

definition legacy_gauss ::
  "'d fpu \<Rightarrow> ('s, 'd) aug_brng_t \<Rightarrow> ('d \<times> ('s, 'd) aug_brng_t) option" where
  "legacy_gauss fp aug_state =
     (if has_gauss aug_state then
        let temp = gauss aug_state
        in Some (temp, aug_state\<lparr>has_gauss := False, gauss := lit fp 0\<rparr>)
      else
        case repeat_loop (\<lambda>a. Some (legacy_gauss_pass fp a)) aug_state of
          None \<Rightarrow> None
        | Some (x1, x2, r2, a) \<Rightarrow>
            let f = fsqrt fp (fdiv fp (fmul fp (lit fp (- 2)) (flog fp r2)) r2)
            in Some (fmul fp f x2, a\<lparr>gauss := fmul fp f x1, has_gauss := True\<rparr>))"

definition legacy_standard_exponential ::
  "'d fpu \<Rightarrow> ('s, 'd) aug_brng_t \<Rightarrow> 'd \<times> ('s, 'd) aug_brng_t" where
  "legacy_standard_exponential fp aug_state =
     (let (u, a) = legacy_double aug_state
      in (fneg fp (flog fp (fsub fp (lit fp 1) u)), a))"

subsection \<open>The stream of uniforms\<close>

text \<open>
  \<open>after_draws k a\<close> is the augmented state after \<open>k\<close> calls of \<open>legacy_double\<close>, and
  \<open>uniform_at k a\<close> the value the call number \<open>k\<close> (from 0) returns.
\<close>

fun after_draws :: "nat \<Rightarrow> ('s, 'd) aug_brng_t \<Rightarrow> ('s, 'd) aug_brng_t" where
  "after_draws 0 a = a"
| "after_draws (Suc k) a = after_draws k (snd (legacy_double a))"

definition uniform_at :: "nat \<Rightarrow> ('s, 'd) aug_brng_t \<Rightarrow> 'd" where
  "uniform_at k a = fst (legacy_double (after_draws k a))"

text \<open>The polar pair made of the uniforms \<open>2k\<close> and \<open>2k+1\<close>, and the rejection test on it.\<close>

definition polar_x1 :: "'d fpu \<Rightarrow> ('s, 'd) aug_brng_t \<Rightarrow> nat \<Rightarrow> 'd" where
  "polar_x1 fp a k = fsub fp (fmul fp (lit fp 2) (uniform_at (2 * k) a)) (lit fp 1)"

definition polar_x2 :: "'d fpu \<Rightarrow> ('s, 'd) aug_brng_t \<Rightarrow> nat \<Rightarrow> 'd" where
  "polar_x2 fp a k = fsub fp (fmul fp (lit fp 2) (uniform_at (2 * k + 1) a)) (lit fp 1)"

definition polar_r2 :: "'d fpu \<Rightarrow> ('s, 'd) aug_brng_t \<Rightarrow> nat \<Rightarrow> 'd" where
  "polar_r2 fp a k =
     fadd fp (fmul fp (polar_x1 fp a k) (polar_x1 fp a k))
             (fmul fp (polar_x2 fp a k) (polar_x2 fp a k))"

definition polar_rejected :: "'d fpu \<Rightarrow> ('s, 'd) aug_brng_t \<Rightarrow> nat \<Rightarrow> bool" where
  "polar_rejected fp a k \<longleftrightarrow>
     fge fp (polar_r2 fp a k) (lit fp 1) \<or> feq fp (polar_r2 fp a k) (lit fp 0)"

definition polar_f :: "'d fpu \<Rightarrow> ('s, 'd) aug_brng_t \<Rightarrow> nat \<Rightarrow> 'd" where
  "polar_f fp a k =
     fsqrt fp (fdiv fp (fmul fp (lit fp (- 2)) (flog fp (polar_r2 fp a k))) (polar_r2 fp a k))"

subsection \<open>legacy_standard_gamma\<close>

text \<open>
  One pass through the \<^verbatim>\<open>for (;;)\<close> loop of the branch \<^verbatim>\<open>shape < 1.0\<close>: the uniform
  \<open>U\<close> is drawn first, the standard exponential \<open>V\<close> second; the pass leaves the loop with
  \<open>X\<close> when the acceptance test of its side of \<^verbatim>\<open>U <= 1.0 - shape\<close> holds.
\<close>

definition gamma_small_pass ::
  "'d fpu \<Rightarrow> 'd \<Rightarrow> ('s, 'd) aug_brng_t \<Rightarrow> ('d \<times> ('s, 'd) aug_brng_t) + ('s, 'd) aug_brng_t" where
  "gamma_small_pass fp shape aug_state =
     (let (U, a1) = legacy_double aug_state;
          (V, a2) = legacy_standard_exponential fp a1
      in if fle fp U (fsub fp (lit fp 1) shape) then
           let X = fpow fp U (fdiv fp (lit fp 1) shape)
           in if fle fp X V then Inl (X, a2) else Inr a2
         else
           let Y = fneg fp (flog fp (fdiv fp (fsub fp (lit fp 1) U) shape));
               X = fpow fp (fadd fp (fsub fp (lit fp 1) shape) (fmul fp shape Y))
                     (fdiv fp (lit fp 1) shape)
           in if fle fp X (fadd fp V Y) then Inl (X, a2) else Inr a2)"

text \<open>
  The branch \<^verbatim>\<open>else\<close> (Marsaglia and Tsang). One pass through the inner
  \<^verbatim>\<open>do ... while (V <= 0.0)\<close> loop is one call of \<open>legacy_gauss\<close>; one pass through the
  outer \<^verbatim>\<open>for (;;)\<close> loop is the inner loop, then one uniform, then the two tests.
\<close>

definition gamma_inner_pass ::
  "'d fpu \<Rightarrow> 'd \<Rightarrow> ('s, 'd) aug_brng_t \<Rightarrow>
     (('d \<times> 'd \<times> ('s, 'd) aug_brng_t) + ('s, 'd) aug_brng_t) option" where
  "gamma_inner_pass fp c aug_state =
     (case legacy_gauss fp aug_state of
        None \<Rightarrow> None
      | Some (X, a1) \<Rightarrow>
          let V = fadd fp (lit fp 1) (fmul fp c X)
          in Some (if fle fp V (lit fp 0) then Inr a1 else Inl (X, V, a1)))"

definition gamma_outer_pass ::
  "'d fpu \<Rightarrow> 'd \<Rightarrow> 'd \<Rightarrow> ('s, 'd) aug_brng_t \<Rightarrow>
     (('d \<times> ('s, 'd) aug_brng_t) + ('s, 'd) aug_brng_t) option" where
  "gamma_outer_pass fp b c aug_state =
     (case repeat_loop (gamma_inner_pass fp c) aug_state of
        None \<Rightarrow> None
      | Some (X, V0, a1) \<Rightarrow>
          let V = fmul fp (fmul fp V0 V0) V0;
              (U, a2) = legacy_double a1
          in if flt fp U (fsub fp (lit fp 1)
                  (fmul fp (fmul fp (lit fp (331 / 10000)) (fmul fp X X)) (fmul fp X X)))
             then Some (Inl (fmul fp b V, a2))
             else if flt fp (flog fp U)
                  (fadd fp (fmul fp (fmul fp (lit fp (1 / 2)) X) X)
                     (fmul fp b (fadd fp (fsub fp (lit fp 1) V) (flog fp V))))
             then Some (Inl (fmul fp b V, a2))
             else Some (Inr a2))"

definition legacy_standard_gamma ::
  "'d fpu \<Rightarrow> ('s, 'd) aug_brng_t \<Rightarrow> 'd \<Rightarrow> ('d \<times> ('s, 'd) aug_brng_t) option" where
  "legacy_standard_gamma fp aug_state shape =
     (if feq fp shape (lit fp 1) then Some (legacy_standard_exponential fp aug_state)
      else if feq fp shape (lit fp 0) then Some (lit fp 0, aug_state)
      else if flt fp shape (lit fp 1) then
        repeat_loop (\<lambda>a. Some (gamma_small_pass fp shape a)) aug_state
      else
        let b = fsub fp shape (fdiv fp (lit fp 1) (lit fp 3));
            c = fdiv fp (lit fp 1) (fsqrt fp (fmul fp (lit fp 9) b))
        in repeat_loop (gamma_outer_pass fp b c) aug_state)"

text \<open>
  The acceptance test of \<open>gamma_small_pass\<close> as a function of the two values drawn, and the
  values of trial \<open>k\<close>: \<open>U\<close> is uniform number \<open>2k\<close>, \<open>V\<close> comes from uniform number \<open>2k+1\<close>.
\<close>

definition gamma_small_accept :: "'d fpu \<Rightarrow> 'd \<Rightarrow> 'd \<Rightarrow> 'd \<Rightarrow> 'd option" where
  "gamma_small_accept fp shape U V =
     (if fle fp U (fsub fp (lit fp 1) shape) then
        let X = fpow fp U (fdiv fp (lit fp 1) shape)
        in if fle fp X V then Some X else None
      else
        let Y = fneg fp (flog fp (fdiv fp (fsub fp (lit fp 1) U) shape));
            X = fpow fp (fadd fp (fsub fp (lit fp 1) shape) (fmul fp shape Y))
                  (fdiv fp (lit fp 1) shape)
        in if fle fp X (fadd fp V Y) then Some X else None)"

definition gamma_small_trial :: "'d fpu \<Rightarrow> 'd \<Rightarrow> ('s, 'd) aug_brng_t \<Rightarrow> nat \<Rightarrow> 'd option" where
  "gamma_small_trial fp shape a k =
     gamma_small_accept fp shape (uniform_at (2 * k) a)
       (fneg fp (flog fp (fsub fp (lit fp 1) (uniform_at (2 * k + 1) a))))"

text \<open>
  The two acceptance tests of the outer loop, and \<open>gauss_draws fp k a\<close>: the values and the
  final state of \<open>k\<close> successive calls of \<open>legacy_gauss\<close>.
\<close>

definition gamma_squeeze_accept :: "'d fpu \<Rightarrow> 'd \<Rightarrow> 'd \<Rightarrow> 'd \<Rightarrow> 'd \<Rightarrow> bool" where
  "gamma_squeeze_accept fp b X V U \<longleftrightarrow>
     flt fp U (fsub fp (lit fp 1)
        (fmul fp (fmul fp (lit fp (331 / 10000)) (fmul fp X X)) (fmul fp X X))) \<or>
     flt fp (flog fp U)
        (fadd fp (fmul fp (fmul fp (lit fp (1 / 2)) X) X)
           (fmul fp b (fadd fp (fsub fp (lit fp 1) V) (flog fp V))))"

fun gauss_draws ::
  "'d fpu \<Rightarrow> nat \<Rightarrow> ('s, 'd) aug_brng_t \<Rightarrow> ('d list \<times> ('s, 'd) aug_brng_t) option" where
  "gauss_draws fp 0 a = Some ([], a)"
| "gauss_draws fp (Suc k) a =
     (case legacy_gauss fp a of
        None \<Rightarrow> None
      | Some (x, a') \<Rightarrow>
          (case gauss_draws fp k a' of
             None \<Rightarrow> None
           | Some (xs, a'') \<Rightarrow> Some (x # xs, a'')))"

subsection \<open>legacy_chisquare and legacy_noncentral_chisquare\<close>

definition legacy_chisquare ::
  "'d fpu \<Rightarrow> ('s, 'd) aug_brng_t \<Rightarrow> 'd \<Rightarrow> ('d \<times> ('s, 'd) aug_brng_t) option" where
  "legacy_chisquare fp aug_state df =
     (case legacy_standard_gamma fp aug_state (fdiv fp df (lit fp 2)) of
        None \<Rightarrow> None
      | Some (g, a) \<Rightarrow> Some (fmul fp (lit fp 2) g, a))"

text \<open>
  \<^verbatim>\<open>random_poisson\<close> lives in another file (distributions.c): it is the parameter \<open>rp\<close>.
  It receives the handle \<^verbatim>\<open>aug_state->basicrng\<close>, not the augmented state, returns a
  \<^verbatim>\<open>long\<close> and leaves the handle advanced; \<open>None\<close> stands for a call that does not return.
\<close>

definition legacy_noncentral_chisquare ::
  "'d fpu \<Rightarrow> (('s, 'd) brng_t \<Rightarrow> 'd \<Rightarrow> (int \<times> ('s, 'd) brng_t) option) \<Rightarrow>
     ('s, 'd) aug_brng_t \<Rightarrow> 'd \<Rightarrow> 'd \<Rightarrow> ('d \<times> ('s, 'd) aug_brng_t) option" where
  "legacy_noncentral_chisquare fp rp aug_state df nonc =
     (if feq fp nonc (lit fp 0) then legacy_chisquare fp aug_state df
      else if flt fp (lit fp 1) df then
        (case legacy_chisquare fp aug_state (fsub fp df (lit fp 1)) of
           None \<Rightarrow> None
         | Some (Chi2, a1) \<Rightarrow>
             (case legacy_gauss fp a1 of
                None \<Rightarrow> None
              | Some (g, a2) \<Rightarrow>
                  let n = fadd fp g (fsqrt fp nonc)
                  in Some (fadd fp Chi2 (fmul fp n n), a2)))
      else
        (case rp (basicrng aug_state) (fdiv fp nonc (lit fp 2)) of
           None \<Rightarrow> None
         | Some (i, b1) \<Rightarrow>
             (case legacy_chisquare fp (aug_state\<lparr>basicrng := b1\<rparr>)
                     (fadd fp df (of_long fp (2 * i))) of
                None \<Rightarrow> None
              | Some (out, a2) \<Rightarrow>
                  if fisnan fp nonc then Some (NPY_NAN fp, a2) else Some (out, a2))))"

text \<open>
  The draws of the two branches taken when \<open>nonc\<close> is not zero, without the value computed
  from them: the state they leave, or \<open>None\<close> when one of them does not return.
\<close>

definition ncx2_draws_gt1 ::
  "'d fpu \<Rightarrow> ('s, 'd) aug_brng_t \<Rightarrow> 'd \<Rightarrow> ('s, 'd) aug_brng_t option" where
  "ncx2_draws_gt1 fp aug_state df =
     (case legacy_chisquare fp aug_state (fsub fp df (lit fp 1)) of
        None \<Rightarrow> None
      | Some (Chi2, a1) \<Rightarrow> map_option snd (legacy_gauss fp a1))"

definition ncx2_draws_le1 ::
  "'d fpu \<Rightarrow> (('s, 'd) brng_t \<Rightarrow> 'd \<Rightarrow> (int \<times> ('s, 'd) brng_t) option) \<Rightarrow>
     ('s, 'd) aug_brng_t \<Rightarrow> 'd \<Rightarrow> 'd \<Rightarrow> ('d \<times> ('s, 'd) aug_brng_t) option" where
  "ncx2_draws_le1 fp rp aug_state df nonc =
     (case rp (basicrng aug_state) (fdiv fp nonc (lit fp 2)) of
        None \<Rightarrow> None
      | Some (i, b1) \<Rightarrow>
          legacy_chisquare fp (aug_state\<lparr>basicrng := b1\<rparr>) (fadd fp df (of_long fp (2 * i))))"

text \<open>
  A generator for concrete runs: its state is the list of uniforms still to come, and it
  returns 0 for ever once the list is used up.
\<close>

definition list_brng :: "real list \<Rightarrow> (real list, exact) brng_t" where
  "list_brng us =
     \<lparr>state = us,
      next_double = (\<lambda>xs. case xs of [] \<Rightarrow> (Num 0, []) | x # xs' \<Rightarrow> (Num x, xs'))\<rparr>"

definition list_aug :: "real list \<Rightarrow> (real list, exact) aug_brng_t" where
  "list_aug us = \<lparr>basicrng = list_brng us, has_gauss = False, gauss = Num 0\<rparr>"

text \<open>A generator that returns the same uniform for ever.\<close>

definition const_brng :: "real \<Rightarrow> (unit, exact) brng_t" where
  "const_brng u = \<lparr>state = (), next_double = (\<lambda>s. (Num u, s))\<rparr>"

definition const_aug :: "real \<Rightarrow> (unit, exact) aug_brng_t" where
  "const_aug u = \<lparr>basicrng = const_brng u, has_gauss = False, gauss = Num 0\<rparr>"

text \<open>
  A stand-in for \<^verbatim>\<open>random_poisson\<close> in concrete runs: it draws one uniform from the handle
  and returns 0.
\<close>

definition one_draw_poisson :: "('s, 'd) brng_t \<Rightarrow> 'd \<Rightarrow> (int \<times> ('s, 'd) brng_t) option" where
  "one_draw_poisson b lam = (let (u, s') = next_double b (state b) in Some (0, b\<lparr>state := s'\<rparr>))"

section \<open>The generator classes (mt19937.pyx, threefry32.pyx, xoshiro256starstar.pyx)\<close>

subsection \<open>Python objects and exceptions\<close>

text \<open>
  The methods receive arbitrary Python objects. \<open>PyArray\<close> is a one-dimensional numpy array
  of integers, \<open>PyDict\<close> a dict with string keys (the first binding of a key counts).
  A method returns a pair: the exception raised, or \<open>Inr\<close> of its result, and the state
  block as the call leaves it, so that a mutation made before an exception stays visible.
\<close>

datatype error = TypeError | ValueError | KeyError | IndexError | OverflowError | RuntimeError

datatype pyobj =
    PyNone
  | PyInt int
  | PyStr string
  | PyTuple "pyobj list"
  | PyList "pyobj list"
  | PyArray "int list"
  | PyDict "(string \<times> pyobj) list"

type_synonym 's stmt = "'s \<Rightarrow> (error + unit) \<times> 's"

text \<open>A statement after a statement: the second runs when the first raised nothing.\<close>

definition seq :: "'s stmt \<Rightarrow> 's stmt \<Rightarrow> 's stmt" where
  "seq p q st = (case p st of (Inl e, st') \<Rightarrow> (Inl e, st') | (Inr u, st') \<Rightarrow> q st')"

text \<open>
  An assignment \<^verbatim>\<open>field = expr\<close>: the expression is evaluated first and may raise, which
  leaves the state as it is; otherwise the value is stored.
\<close>

definition assign :: "error + 'a \<Rightarrow> ('a \<Rightarrow> 's \<Rightarrow> 's) \<Rightarrow> 's stmt" where
  "assign e store st = (case e of Inl err \<Rightarrow> (Inl err, st) | Inr v \<Rightarrow> (Inr (), store v st))"

text \<open>\<^verbatim>\<open>for i in ...: body\<close>, left at the first exception.\<close>

fun for_range :: "nat list \<Rightarrow> (nat \<Rightarrow> 's stmt) \<Rightarrow> 's stmt" where
  "for_range [] body st = (Inr (), st)"
| "for_range (i # is) body st = seq (body i) (for_range is body) st"

text \<open>Evaluation of an expression inside an expression.\<close>

definition ebind :: "error + 'a \<Rightarrow> ('a \<Rightarrow> error + 'b) \<Rightarrow> error + 'b" where
  "ebind e f = (case e of Inl err \<Rightarrow> Inl err | Inr v \<Rightarrow> f v)"

fun is_dict :: "pyobj \<Rightarrow> bool" where
  "is_dict (PyDict kvs) = True"
| "is_dict _ = False"

fun is_tuple :: "pyobj \<Rightarrow> bool" where
  "is_tuple (PyTuple xs) = True"
| "is_tuple _ = False"

text \<open>\<^verbatim>\<open>value.get(k, default)\<close> on a dict.\<close>

fun dict_get :: "pyobj \<Rightarrow> string \<Rightarrow> pyobj \<Rightarrow> pyobj" where
  "dict_get (PyDict kvs) k d = (case map_of kvs k of None \<Rightarrow> d | Some v \<Rightarrow> v)"
| "dict_get _ k d = d"

text \<open>\<^verbatim>\<open>value[k]\<close> with a string \<open>k\<close>.\<close>

fun getitem_key :: "pyobj \<Rightarrow> string \<Rightarrow> error + pyobj" where
  "getitem_key (PyDict kvs) k = (case map_of kvs k of None \<Rightarrow> Inl KeyError | Some v \<Rightarrow> Inr v)"
| "getitem_key (PyArray ns) k = Inl IndexError"
| "getitem_key _ k = Inl TypeError"

text \<open>\<^verbatim>\<open>value[i]\<close> with an index \<open>i\<close> that is not negative.\<close>

fun getitem_index :: "pyobj \<Rightarrow> nat \<Rightarrow> error + pyobj" where
  "getitem_index (PyTuple xs) i = (if i < length xs then Inr (xs ! i) else Inl IndexError)"
| "getitem_index (PyList xs) i = (if i < length xs then Inr (xs ! i) else Inl IndexError)"
| "getitem_index (PyArray ns) i = (if i < length ns then Inr (PyInt (ns ! i)) else Inl IndexError)"
| "getitem_index (PyStr cs) i = (if i < length cs then Inr (PyStr [cs ! i]) else Inl IndexError)"
| "getitem_index (PyDict kvs) i = Inl KeyError"
| "getitem_index _ i = Inl TypeError"

text \<open>
  The conversion of a Python object to a C integer type, as Cython generates it for an
  assignment to a C field and for a cast \<^verbatim>\<open><uint32_t> obj\<close>: an integer out of the range of
  the type raises OverflowError.
\<close>

fun as_uint32 :: "pyobj \<Rightarrow> error + 32 word" where
  "as_uint32 (PyInt n) = (if n < 0 \<or> 2 ^ 32 \<le> n then Inl OverflowError else Inr (word_of_int n))"
| "as_uint32 _ = Inl TypeError"

fun as_uint64 :: "pyobj \<Rightarrow> error + 64 word" where
  "as_uint64 (PyInt n) = (if n < 0 \<or> 2 ^ 64 \<le> n then Inl OverflowError else Inr (word_of_int n))"
| "as_uint64 _ = Inl TypeError"

text \<open>A C \<^verbatim>\<open>int\<close> is a 32-bit word read as two's complement (\<open>sint\<close>).\<close>

fun as_int :: "pyobj \<Rightarrow> error + 32 word" where
  "as_int (PyInt n) =
     (if n < - (2 ^ 31) \<or> 2 ^ 31 \<le> n then Inl OverflowError else Inr (word_of_int n))"
| "as_int _ = Inl TypeError"

text \<open>Indexing an array that a helper returned.\<close>

definition array_index :: "'a list \<Rightarrow> nat \<Rightarrow> error + 'a" where
  "array_index xs i = (if i < length xs then Inr (xs ! i) else Inl IndexError)"

subsection \<open>Helpers that live outside the three classes\<close>

text \<open>
  \<^verbatim>\<open>random_entropy\<close> and \<^verbatim>\<open>seed_by_array\<close> (entropy.pyx) and numpy's conversion of a seed
  to an int64 array are parameters of the model, collected in one record:
  \<^item> \<open>random_entropy n fallback\<close> is the array of \<open>n\<close> 32-bit words read from the system, or
    \<open>None\<close> when the call raises RuntimeError;
  \<^item> \<open>seed_by_array seed n\<close> is the array of \<open>n\<close> 64-bit words, or the exception raised;
  \<^item> \<open>asarray_int64 seed\<close> is \<^verbatim>\<open>np.asarray(seed).astype(np.int64, casting='safe')\<close>: the
    int64 elements of the array in C order together with its first dimension, or the
    exception raised.
\<close>

record py_env =
  random_entropy :: "nat \<Rightarrow> bool \<Rightarrow> 32 word list option"
  seed_by_array :: "pyobj \<Rightarrow> nat \<Rightarrow> error + 64 word list"
  asarray_int64 :: "pyobj \<Rightarrow> error + 64 word list \<times> nat"

text \<open>
  \<^verbatim>\<open>try: state = random_entropy(n) except RuntimeError: state = random_entropy(n, 'fallback')\<close>
\<close>

definition entropy_or_fallback :: "py_env \<Rightarrow> nat \<Rightarrow> error + 32 word list" where
  "entropy_or_fallback env n =
     (case random_entropy env n False of
        Some ws \<Rightarrow> Inr ws
      | None \<Rightarrow>
          (case random_entropy env n True of
             Some ws \<Rightarrow> Inr ws
           | None \<Rightarrow> Inl RuntimeError))"

text \<open>
  \<^verbatim>\<open>.view(np.uint32)\<close> of an array of 64-bit words and \<^verbatim>\<open>.view(np.uint64)\<close> of an array of
  32-bit words, on a little-endian machine.
\<close>

fun view_uint32 :: "64 word list \<Rightarrow> 32 word list" where
  "view_uint32 [] = []"
| "view_uint32 (w # ws) = ucast w # ucast (drop_bit 32 w) # view_uint32 ws"

fun view_uint64 :: "32 word list \<Rightarrow> 64 word list" where
  "view_uint64 (lo # hi # ws) = (ucast lo + push_bit 32 (ucast hi)) # view_uint64 ws"
| "view_uint64 _ = []"

text \<open>
  Modelled from the spec: \<^verbatim>\<open>int_to_array\<close> (common.pyx is not among the sources). The spec,
  section 4.6: it converts a non-negative integer to \<open>total_bits / word_bits\<close> little-endian
  unsigned words, \<open>word[i] = (v >> (word_bits * i)) & (2^word_bits - 1)\<close>, failing with a
  range error if \<open>v\<close> does not fit; the doc strings of \<^verbatim>\<open>ThreeFry32.seed\<close> add the array
  form, an array of that many words. The argument \<^verbatim>\<open>name\<close> goes into the message only.
\<close>

definition le_words :: "nat \<Rightarrow> nat \<Rightarrow> int \<Rightarrow> int list" where
  "le_words word_bits n v = map (\<lambda>i. (v div 2 ^ (word_bits * i)) mod 2 ^ word_bits) [0..<n]"

definition words_in_range :: "nat \<Rightarrow> pyobj list \<Rightarrow> bool" where
  "words_in_range word_bits xs \<longleftrightarrow>
     list_all (\<lambda>x. case x of PyInt w \<Rightarrow> 0 \<le> w \<and> w < 2 ^ word_bits | _ \<Rightarrow> False) xs"

fun int_to_array :: "pyobj \<Rightarrow> nat \<Rightarrow> nat \<Rightarrow> error + int list" where
  "int_to_array (PyInt v) total_bits word_bits =
     (if v < 0 \<or> 2 ^ total_bits \<le> v then Inl ValueError
      else Inr (le_words word_bits (total_bits div word_bits) v))"
| "int_to_array (PyArray ws) total_bits word_bits =
     (if length ws = total_bits div word_bits \<and> words_in_range word_bits (map PyInt ws)
      then Inr ws else Inl ValueError)"
| "int_to_array (PyList xs) total_bits word_bits =
     (if length xs = total_bits div word_bits \<and> words_in_range word_bits xs
      then Inr (map (\<lambda>x. case x of PyInt w \<Rightarrow> w | _ \<Rightarrow> 0) xs) else Inl ValueError)"
| "int_to_array _ total_bits word_bits = Inl TypeError"

subsection \<open>MT19937\<close>

text \<open>
  \<^verbatim>\<open>struct s_mt19937_state { uint32_t key[624]; int pos; }\<close>. The fields carry the prefix
  \<open>mt_\<close>, as \<open>key\<close> is a field of the ThreeFry state too. An array of the state block is a
  list; a state block is well formed when its arrays have the declared lengths.
\<close>

record mt19937_state =
  mt_key :: "32 word list"
  mt_pos :: "32 word"

definition wf_mt19937 :: "mt19937_state \<Rightarrow> bool" where
  "wf_mt19937 st \<longleftrightarrow> length (mt_key st) = 624"

text \<open>
  The C functions of \<^verbatim>\<open>src/mt19937/mt19937.h\<close> that the class calls are declared in the
  \<^verbatim>\<open>cdef extern\<close> block only: they are parameters.
\<close>

record mt19937_h =
  mt19937_seed :: "mt19937_state \<Rightarrow> 32 word \<Rightarrow> mt19937_state"
  mt19937_init_by_array :: "mt19937_state \<Rightarrow> 32 word list \<Rightarrow> nat \<Rightarrow> mt19937_state"
  mt19937_jump :: "mt19937_state \<Rightarrow> mt19937_state"

text \<open>
  \<^verbatim>\<open>seed.squeeze()\<close> turns an array of one element into a scalar, and
  \<^verbatim>\<open>operator.index\<close> raises TypeError on what is not an integer.
\<close>

fun squeeze :: "pyobj \<Rightarrow> pyobj" where
  "squeeze (PyArray [n]) = PyInt n"
| "squeeze v = v"

fun operator_index :: "pyobj \<Rightarrow> error + int" where
  "operator_index (PyInt n) = Inr n"
| "operator_index _ = Inl TypeError"

text \<open>The body of the \<^verbatim>\<open>try\<close> of \<^verbatim>\<open>MT19937.seed\<close>.\<close>

definition MT19937_seed_try :: "py_env \<Rightarrow> mt19937_h \<Rightarrow> pyobj \<Rightarrow> mt19937_state stmt" where
  "MT19937_seed_try env h seed st =
     (if seed = PyNone then
        (case entropy_or_fallback env 1 of
           Inl e \<Rightarrow> (Inl e, st)
         | Inr ws \<Rightarrow> assign (array_index ws 0) (\<lambda>w st. mt19937_seed h st w) st)
      else
        (case operator_index (squeeze seed) of
           Inl e \<Rightarrow> (Inl e, st)
         | Inr idx \<Rightarrow>
             if idx > 2 ^ 32 - 1 \<or> idx < 0 then (Inl ValueError, st)
             else (Inr (), mt19937_seed h st (word_of_int idx))))"

text \<open>The handler \<^verbatim>\<open>except TypeError\<close>: the seed is an array.\<close>

definition MT19937_seed_array :: "py_env \<Rightarrow> mt19937_h \<Rightarrow> pyobj \<Rightarrow> mt19937_state stmt" where
  "MT19937_seed_array env h seed st =
     (case asarray_int64 env seed of
        Inl e \<Rightarrow> (Inl e, st)
      | Inr (obj, dim0) \<Rightarrow>
          if list_ex (\<lambda>x. sint x > 2 ^ 32 - 1 \<or> sint x < 0) obj then (Inl ValueError, st)
          else (Inr (), mt19937_init_by_array h st (map ucast obj) dim0))"

definition MT19937_seed :: "py_env \<Rightarrow> mt19937_h \<Rightarrow> pyobj \<Rightarrow> mt19937_state stmt" where
  "MT19937_seed env h seed st =
     (case MT19937_seed_try env h seed st of
        (Inl TypeError, st') \<Rightarrow>
          MT19937_seed_array env h (if seed = PyNone then seed else squeeze seed) st'
      | r \<Rightarrow> r)"

text \<open>
  \<^verbatim>\<open>def jump(self)\<close> declares no parameter besides \<^verbatim>\<open>self\<close>: a call that passes an
  argument raises TypeError before the body runs. \<open>args\<close> is the list of the arguments of
  the call.
\<close>

definition MT19937_jump :: "mt19937_h \<Rightarrow> pyobj list \<Rightarrow> mt19937_state stmt" where
  "MT19937_jump h args st =
     (if args \<noteq> [] then (Inl TypeError, st) else (Inr (), mt19937_jump h st))"

definition MT19937_state :: "mt19937_state \<Rightarrow> pyobj" where
  "MT19937_state st =
     PyDict [(''brng'', PyStr ''MT19937''),
             (''state'', PyDict [(''key'', PyArray (map (\<lambda>i. uint (mt_key st ! i)) [0..<624])),
                                 (''pos'', PyInt (sint (mt_pos st)))])]"

text \<open>The first statement of the setter: a tuple is a legacy state.\<close>

definition MT19937_legacy_tuple :: "pyobj \<Rightarrow> error + pyobj" where
  "MT19937_legacy_tuple v =
     (if is_tuple v then
        ebind (getitem_index v 0) (\<lambda>v0.
          if v0 \<noteq> PyStr ''MT19937'' \<or> (case v of PyTuple xs \<Rightarrow> length xs \<notin> {3, 5} | _ \<Rightarrow> True)
          then Inl ValueError
          else
            ebind (getitem_index v 1) (\<lambda>v1.
            ebind (getitem_index v 2) (\<lambda>v2.
              Inr (PyDict [(''brng'', PyStr ''MT19937''),
                           (''state'', PyDict [(''key'', v1), (''pos'', v2)])]))))
      else Inr v)"

definition MT19937_state_setter :: "pyobj \<Rightarrow> mt19937_state stmt" where
  "MT19937_state_setter v0 st =
     (case MT19937_legacy_tuple v0 of
        Inl e \<Rightarrow> (Inl e, st)
      | Inr v \<Rightarrow>
          if \<not> is_dict v then (Inl TypeError, st)
          else if dict_get v ''brng'' (PyStr []) \<noteq> PyStr ''MT19937'' then (Inl ValueError, st)
          else
            (case ebind (getitem_key v ''state'') (\<lambda>d. getitem_key d ''key'') of
               Inl e \<Rightarrow> (Inl e, st)
             | Inr k \<Rightarrow>
                 seq (for_range [0..<624] (\<lambda>i.
                        assign (ebind (getitem_index k i) as_uint32)
                          (\<lambda>w st. st\<lparr>mt_key := (mt_key st)[i := w]\<rparr>)))
                     (assign (ebind (ebind (getitem_key v ''state'') (\<lambda>d. getitem_key d ''pos''))
                                as_int)
                        (\<lambda>p st. st\<lparr>mt_pos := p\<rparr>)) st))"

subsection \<open>ThreeFry32\<close>

text \<open>
  \<^verbatim>\<open>struct s_threefry32_state { ctr; key; int buffer_pos; uint32_t buffer[4]; }\<close>, where
  \<^verbatim>\<open>ctr\<close> and \<^verbatim>\<open>key\<close> point to arrays of four 32-bit words that the handle allocates for
  itself and shares with nobody. The fields carry the prefix \<open>tf_\<close>.
\<close>

record threefry32_state =
  tf_ctr :: "32 word list"
  tf_key :: "32 word list"
  tf_buffer_pos :: "32 word"
  tf_buffer :: "32 word list"

definition wf_threefry32 :: "threefry32_state \<Rightarrow> bool" where
  "wf_threefry32 st \<longleftrightarrow>
     length (tf_ctr st) = 4 \<and> length (tf_key st) = 4 \<and> length (tf_buffer st) = 4"

definition THREEFRY_BUFFER_SIZE :: nat where
  "THREEFRY_BUFFER_SIZE = 4"

definition ThreeFry32_reset_state_variables :: "threefry32_state stmt" where
  "ThreeFry32_reset_state_variables =
     seq (\<lambda>st. (Inr (), st\<lparr>tf_buffer_pos := of_nat THREEFRY_BUFFER_SIZE\<rparr>))
         (for_range [0..<THREEFRY_BUFFER_SIZE] (\<lambda>i st.
            (Inr (), st\<lparr>tf_buffer := (tf_buffer st)[i := 0]\<rparr>)))"

definition ThreeFry32_seed ::
  "py_env \<Rightarrow> pyobj \<Rightarrow> pyobj \<Rightarrow> pyobj \<Rightarrow> threefry32_state stmt" where
  "ThreeFry32_seed env seed counter key st =
     (if seed \<noteq> PyNone \<and> key \<noteq> PyNone then (Inl ValueError, st)
      else
        seq (if key = PyNone then
               (\<lambda>st. case (if seed = PyNone then entropy_or_fallback env 4
                           else ebind (seed_by_array env seed 2) (\<lambda>ws. Inr (view_uint32 ws))) of
                        Inl e \<Rightarrow> (Inl e, st)
                      | Inr words \<Rightarrow>
                          for_range [0..<4] (\<lambda>i.
                            assign (array_index words i)
                              (\<lambda>w st. st\<lparr>tf_key := (tf_key st)[i := w]\<rparr>)) st)
             else
               (\<lambda>st. case int_to_array key 128 32 of
                        Inl e \<Rightarrow> (Inl e, st)
                      | Inr karr \<Rightarrow>
                          for_range [0..<4] (\<lambda>i.
                            assign (ebind (array_index karr i) (\<lambda>w. as_uint32 (PyInt w)))
                              (\<lambda>w st. st\<lparr>tf_key := (tf_key st)[i := w]\<rparr>)) st))
       (seq (\<lambda>st. case int_to_array (if counter = PyNone then PyInt 0 else counter) 128 32 of
                     Inl e \<Rightarrow> (Inl e, st)
                   | Inr carr \<Rightarrow>
                       for_range [0..<4] (\<lambda>i.
                         assign (ebind (array_index carr i) (\<lambda>w. as_uint32 (PyInt w)))
                           (\<lambda>w st. st\<lparr>tf_ctr := (tf_ctr st)[i := w]\<rparr>)) st)
            ThreeFry32_reset_state_variables) st)"

definition ThreeFry32_state :: "threefry32_state \<Rightarrow> pyobj" where
  "ThreeFry32_state st =
     PyDict [(''brng'', PyStr ''ThreeFry32''),
             (''state'', PyDict [(''counter'', PyArray (map (\<lambda>i. uint (tf_ctr st ! i)) [0..<4])),
                                 (''key'', PyArray (map (\<lambda>i. uint (tf_key st ! i)) [0..<4]))]),
             (''buffer'',
                PyArray (map (\<lambda>i. uint (tf_buffer st ! i)) [0..<THREEFRY_BUFFER_SIZE])),
             (''buffer_pos'', PyInt (sint (tf_buffer_pos st)))]"

definition ThreeFry32_state_setter :: "pyobj \<Rightarrow> threefry32_state stmt" where
  "ThreeFry32_state_setter v st =
     (if \<not> is_dict v then (Inl TypeError, st)
      else if dict_get v ''brng'' (PyStr []) \<noteq> PyStr ''ThreeFry32'' then (Inl ValueError, st)
      else
        seq (for_range [0..<4] (\<lambda>i.
               seq (assign (ebind (ebind (ebind (getitem_key v ''state'')
                                     (\<lambda>d. getitem_key d ''counter''))
                                     (\<lambda>a. getitem_index a i)) as_uint32)
                      (\<lambda>w st. st\<lparr>tf_ctr := (tf_ctr st)[i := w]\<rparr>))
                   (assign (ebind (ebind (ebind (getitem_key v ''state'')
                                     (\<lambda>d. getitem_key d ''key''))
                                     (\<lambda>a. getitem_index a i)) as_uint32)
                      (\<lambda>w st. st\<lparr>tf_key := (tf_key st)[i := w]\<rparr>))))
       (seq (for_range [0..<THREEFRY_BUFFER_SIZE] (\<lambda>i.
               assign (ebind (ebind (getitem_key v ''buffer'') (\<lambda>a. getitem_index a i)) as_uint32)
                 (\<lambda>w st. st\<lparr>tf_buffer := (tf_buffer st)[i := w]\<rparr>)))
            (assign (ebind (getitem_key v ''buffer_pos'') as_int)
               (\<lambda>p st. st\<lparr>tf_buffer_pos := p\<rparr>))) st)"

text \<open>
  Modelled from the spec: \<^verbatim>\<open>threefry32_advance\<close> (the C file is not among the sources; the
  class declares it in its \<^verbatim>\<open>cdef extern\<close> block). The spec, section 4.2: it adds the step
  to the counter as a 128-bit little-endian value, word \<open>i\<close> holding the bits
  \<open>[32i, 32i+32)\<close>. It touches the counter only.
\<close>

fun le_value :: "int list \<Rightarrow> int" where
  "le_value [] = 0"
| "le_value (w # ws) = w + 2 ^ 32 * le_value ws"

definition threefry32_advance :: "int list \<Rightarrow> threefry32_state \<Rightarrow> threefry32_state" where
  "threefry32_advance step st =
     st\<lparr>tf_ctr :=
          map word_of_int
            (le_words 32 4 ((le_value (map uint (tf_ctr st)) + le_value step) mod 2 ^ 128))\<rparr>"

definition ThreeFry32_advance :: "pyobj \<Rightarrow> threefry32_state stmt" where
  "ThreeFry32_advance delta st =
     (case int_to_array delta 128 32 of
        Inl e \<Rightarrow> (Inl e, st)
      | Inr delta_a \<Rightarrow> ThreeFry32_reset_state_variables (threefry32_advance delta_a st))"

text \<open>
  \<^verbatim>\<open>iter\<close> is declared \<^verbatim>\<open>np.npy_intp\<close>, a signed 64-bit integer; the product
  \<^verbatim>\<open>iter * 2 ** 64\<close> is a Python integer, without a bound.
\<close>

definition ThreeFry32_jump :: "64 word \<Rightarrow> threefry32_state stmt" where
  "ThreeFry32_jump iter st = ThreeFry32_advance (PyInt (sint iter * 2 ^ 64)) st"

subsection \<open>Xoshiro256StarStar\<close>

text \<open>
  \<^verbatim>\<open>struct s_xoshiro256starstar_state { uint64_t s[4]; int has_uint32; uint32_t uinteger; }\<close>.
  The fields carry the prefix \<open>xo_\<close>.
\<close>

record xoshiro256starstar_state =
  xo_s :: "64 word list"
  xo_has_uint32 :: "32 word"
  xo_uinteger :: "32 word"

definition wf_xoshiro256starstar :: "xoshiro256starstar_state \<Rightarrow> bool" where
  "wf_xoshiro256starstar st \<longleftrightarrow> length (xo_s st) = 4"

text \<open>
  Modelled from the spec: \<^verbatim>\<open>xoshiro256starstar_jump\<close> (the C file is not among the sources).
  The spec, section 4.2: it advances the four-word state by \<open>2^128\<close> steps via the published
  polynomial. The map of the polynomial on the four words is the parameter \<open>poly\<close>; the
  flag and the cached half-word are not part of what it advances.
\<close>

definition xoshiro256starstar_jump ::
  "(64 word list \<Rightarrow> 64 word list) \<Rightarrow> xoshiro256starstar_state \<Rightarrow> xoshiro256starstar_state" where
  "xoshiro256starstar_jump poly st = st\<lparr>xo_s := poly (xo_s st)\<rparr>"

definition Xoshiro256StarStar_reset_state_variables :: "xoshiro256starstar_state stmt" where
  "Xoshiro256StarStar_reset_state_variables st =
     (Inr (), st\<lparr>xo_has_uint32 := 0, xo_uinteger := 0\<rparr>)"

definition Xoshiro256StarStar_seed :: "py_env \<Rightarrow> pyobj \<Rightarrow> xoshiro256starstar_state stmt" where
  "Xoshiro256StarStar_seed env seed st =
     (case (if seed = PyNone then ebind (entropy_or_fallback env 8) (\<lambda>ws. Inr (view_uint64 ws))
            else seed_by_array env seed 4) of
        Inl e \<Rightarrow> (Inl e, st)
      | Inr words \<Rightarrow>
          seq (assign (array_index words 0) (\<lambda>w st. st\<lparr>xo_s := (xo_s st)[0 := w]\<rparr>))
         (seq (assign (array_index words 1) (\<lambda>w st. st\<lparr>xo_s := (xo_s st)[1 := w]\<rparr>))
         (seq (assign (array_index words 2) (\<lambda>w st. st\<lparr>xo_s := (xo_s st)[2 := w]\<rparr>))
         (seq (assign (array_index words 3) (\<lambda>w st. st\<lparr>xo_s := (xo_s st)[3 := w]\<rparr>))
              Xoshiro256StarStar_reset_state_variables))) st)"

text \<open>\<^verbatim>\<open>for i in range(iter)\<close> with a signed \<^verbatim>\<open>iter\<close> runs \<open>max iter 0\<close> times.\<close>

definition Xoshiro256StarStar_jump ::
  "(64 word list \<Rightarrow> 64 word list) \<Rightarrow> 64 word \<Rightarrow> xoshiro256starstar_state stmt" where
  "Xoshiro256StarStar_jump poly iter st =
     Xoshiro256StarStar_reset_state_variables
       ((xoshiro256starstar_jump poly ^^ nat (sint iter)) st)"

definition Xoshiro256StarStar_state :: "xoshiro256starstar_state \<Rightarrow> pyobj" where
  "Xoshiro256StarStar_state st =
     PyDict [(''brng'', PyStr ''Xoshiro256StarStar''),
             (''s'', PyArray [uint (xo_s st ! 0), uint (xo_s st ! 1),
                              uint (xo_s st ! 2), uint (xo_s st ! 3)]),
             (''has_uint32'', PyInt (sint (xo_has_uint32 st))),
             (''uinteger'', PyInt (uint (xo_uinteger st)))]"

definition Xoshiro256StarStar_state_setter :: "pyobj \<Rightarrow> xoshiro256starstar_state stmt" where
  "Xoshiro256StarStar_state_setter v st =
     (if \<not> is_dict v then (Inl TypeError, st)
      else if dict_get v ''brng'' (PyStr []) \<noteq> PyStr ''Xoshiro256StarStar''
      then (Inl ValueError, st)
      else
        seq (assign (ebind (ebind (getitem_key v ''s'') (\<lambda>a. getitem_index a 0)) as_uint64)
               (\<lambda>w st. st\<lparr>xo_s := (xo_s st)[0 := w]\<rparr>))
       (seq (assign (ebind (ebind (getitem_key v ''s'') (\<lambda>a. getitem_index a 1)) as_uint64)
               (\<lambda>w st. st\<lparr>xo_s := (xo_s st)[1 := w]\<rparr>))
       (seq (assign (ebind (ebind (getitem_key v ''s'') (\<lambda>a. getitem_index a 2)) as_uint64)
               (\<lambda>w st. st\<lparr>xo_s := (xo_s st)[2 := w]\<rparr>))
       (seq (assign (ebind (ebind (getitem_key v ''s'') (\<lambda>a. getitem_index a 3)) as_uint64)
               (\<lambda>w st. st\<lparr>xo_s := (xo_s st)[3 := w]\<rparr>))
       (seq (assign (ebind (getitem_key v ''has_uint32'') as_int)
               (\<lambda>p st. st\<lparr>xo_has_uint32 := p\<rparr>))
            (assign (ebind (getitem_key v ''uinteger'') as_uint32)
               (\<lambda>w st. st\<lparr>xo_uinteger := w\<rparr>)))))) st)"

subsection \<open>Draw sequences\<close>

text \<open>
  The draw functions (\<^verbatim>\<open>next_uint32\<close>, \<^verbatim>\<open>next_uint64\<close>, \<^verbatim>\<open>next_double\<close>) are C functions of
  the state block alone. \<open>draws next n st\<close> is the list of the next \<open>n\<close> values of one of
  them, whichever it is.
\<close>

fun draws :: "('s \<Rightarrow> 'a \<times> 's) \<Rightarrow> nat \<Rightarrow> 's \<Rightarrow> 'a list" where
  "draws nxt 0 st = []"
| "draws nxt (Suc n) st = (case nxt st of (x, st') \<Rightarrow> x # draws nxt n st')"

subsection \<open>A method called several times\<close>

text \<open>
  The state after \<open>n\<close> calls in a row of \<^verbatim>\<open>jump()\<close> (of \<^verbatim>\<open>jump(1)\<close>, where the method takes
  a count) and of \<^verbatim>\<open>advance(delta)\<close>.
\<close>

definition MT19937_jump_times :: "mt19937_h \<Rightarrow> nat \<Rightarrow> mt19937_state \<Rightarrow> mt19937_state" where
  "MT19937_jump_times h n st = ((\<lambda>s. snd (MT19937_jump h [] s)) ^^ n) st"

definition Xoshiro256StarStar_jump_times ::
  "(64 word list \<Rightarrow> 64 word list) \<Rightarrow> nat \<Rightarrow> xoshiro256starstar_state \<Rightarrow>
     xoshiro256starstar_state" where
  "Xoshiro256StarStar_jump_times poly n st =
     ((\<lambda>s. snd (Xoshiro256StarStar_jump poly 1 s)) ^^ n) st"

definition ThreeFry32_advance_times ::
  "pyobj \<Rightarrow> nat \<Rightarrow> threefry32_state \<Rightarrow> threefry32_state" where
  "ThreeFry32_advance_times delta n st = ((\<lambda>s. snd (ThreeFry32_advance delta s)) ^^ n) st"

text \<open>What \<^verbatim>\<open>_reset_state_variables\<close> makes of the buffer of a ThreeFry32 state.\<close>

definition zeroed :: "32 word list \<Rightarrow> 32 word list" where
  "zeroed xs = xs[0 := 0, Suc 0 := 0, 2 := 0, 3 := 0]"

subsection \<open>Snapshots and concrete instances\<close>

text \<open>
  The snapshot dicts of ThreeFry32 and Xoshiro256StarStar with given field values,
  whatever their ranges.
\<close>

definition ThreeFry32_snapshot :: "int list \<Rightarrow> int list \<Rightarrow> int list \<Rightarrow> int \<Rightarrow> pyobj" where
  "ThreeFry32_snapshot c k b p =
     PyDict [(''brng'', PyStr ''ThreeFry32''),
             (''state'', PyDict [(''counter'', PyArray c), (''key'', PyArray k)]),
             (''buffer'', PyArray b),
             (''buffer_pos'', PyInt p)]"

definition Xoshiro256StarStar_snapshot :: "int list \<Rightarrow> int \<Rightarrow> int \<Rightarrow> pyobj" where
  "Xoshiro256StarStar_snapshot ws h u =
     PyDict [(''brng'', PyStr ''Xoshiro256StarStar''),
             (''s'', PyArray ws),
             (''has_uint32'', PyInt h),
             (''uinteger'', PyInt u)]"

text \<open>
  \<^verbatim>\<open>np.asarray(seed).astype(np.int64, casting='safe')\<close> on the objects of this model, as
  \<^verbatim>\<open>MT19937.seed\<close> calls it at line 171 of \<^verbatim>\<open>mt19937.pyx\<close>.

  \<^item> \<open>np_shape\<close> is the shape of the integer array numpy builds. A list or a tuple nests
    its elements when they all have one shape. There is no integer array (\<open>None\<close>) for
    None, a string or a dict, for an empty list or tuple (numpy makes it an array of
    floats) and for a ragged nesting (an array of objects).
  \<^item> \<open>np_leaves\<close> lists the integers in C order.
  \<^item> The array has the type int64, which the cast accepts, exactly when every integer
    lies in \<open>-2^63 .. 2^63 - 1\<close>. With an integer outside, numpy gives the array the type
    uint64, float64 or object, and the cast to int64 under \<^verbatim>\<open>casting='safe'\<close> raises
    TypeError, as it does for the objects with no integer array. An array of this model
    (\<open>PyArray\<close>) carries no element type: it is read as one of the type its values need.
  \<^item> The second component is \<^verbatim>\<open>np.PyArray_DIM(obj, 0)\<close>, the first entry of the shape. A
    bare integer has the empty shape; \<^verbatim>\<open>MT19937.seed\<close> never converts one, and 0 stands
    there.
\<close>

fun np_shape :: "pyobj \<Rightarrow> nat list option"
  and np_shapes :: "pyobj list \<Rightarrow> nat list list option" where
  "np_shape (PyInt n) = Some []"
| "np_shape (PyArray ns) = Some [length ns]"
| "np_shape (PyList xs) =
     (case np_shapes xs of
        Some (s # ss) \<Rightarrow> if list_all (\<lambda>t. t = s) ss then Some (length xs # s) else None
      | _ \<Rightarrow> None)"
| "np_shape (PyTuple xs) =
     (case np_shapes xs of
        Some (s # ss) \<Rightarrow> if list_all (\<lambda>t. t = s) ss then Some (length xs # s) else None
      | _ \<Rightarrow> None)"
| "np_shape PyNone = None"
| "np_shape (PyStr cs) = None"
| "np_shape (PyDict kvs) = None"
| "np_shapes [] = Some []"
| "np_shapes (x # xs) =
     (case np_shape x of
        None \<Rightarrow> None
      | Some s \<Rightarrow> (case np_shapes xs of None \<Rightarrow> None | Some ss \<Rightarrow> Some (s # ss)))"

fun np_leaves :: "pyobj \<Rightarrow> int list"
  and np_leaves_list :: "pyobj list \<Rightarrow> int list" where
  "np_leaves (PyInt n) = [n]"
| "np_leaves (PyArray ns) = ns"
| "np_leaves (PyList xs) = np_leaves_list xs"
| "np_leaves (PyTuple xs) = np_leaves_list xs"
| "np_leaves PyNone = []"
| "np_leaves (PyStr cs) = []"
| "np_leaves (PyDict kvs) = []"
| "np_leaves_list [] = []"
| "np_leaves_list (x # xs) = np_leaves x @ np_leaves_list xs"

definition numpy_asarray_int64 :: "pyobj \<Rightarrow> error + 64 word list \<times> nat" where
  "numpy_asarray_int64 seed =
     (case np_shape seed of
        None \<Rightarrow> Inl TypeError
      | Some shape \<Rightarrow>
          if list_all (\<lambda>n. - (2 ^ 63) \<le> n \<and> n < 2 ^ 63) (np_leaves seed)
          then Inr (map word_of_int (np_leaves seed), case shape of [] \<Rightarrow> 0 | d # ds \<Rightarrow> d)
          else Inl TypeError)"

text \<open>
  Instances for concrete runs: an environment whose entropy and seed expansion are all
  zero and whose int64 conversion is numpy's, stand-ins for the C functions of MT19937,
  and state blocks.
\<close>

definition zero_env :: py_env where
  "zero_env =
     \<lparr>random_entropy = (\<lambda>n fallback. Some (replicate n 0)),
      seed_by_array = (\<lambda>seed n. Inr (replicate n 0)),
      asarray_int64 = numpy_asarray_int64\<rparr>"

definition fill_h :: mt19937_h where
  "fill_h =
     \<lparr>mt19937_seed = (\<lambda>st w. st\<lparr>mt_key := replicate 624 w, mt_pos := 624\<rparr>),
      mt19937_init_by_array = (\<lambda>st ws n. st\<lparr>mt_key := replicate 624 (of_nat n), mt_pos := 624\<rparr>),
      mt19937_jump = (\<lambda>st. st\<lparr>mt_key := map (\<lambda>w. w + 1) (mt_key st)\<rparr>)\<rparr>"

definition mt_zero :: mt19937_state where
  "mt_zero = \<lparr>mt_key = replicate 624 0, mt_pos = 624\<rparr>"

definition tf_zero :: threefry32_state where
  "tf_zero = \<lparr>tf_ctr = [0, 0, 0, 0], tf_key = [0, 0, 0, 0], tf_buffer_pos = 4,
             tf_buffer = [0, 0, 0, 0]\<rparr>"

definition tf_used :: threefry32_state where
  "tf_used = \<lparr>tf_ctr = [7, 0, 0, 0], tf_key = [1, 2, 3, 4], tf_buffer_pos = 2,
             tf_buffer = [11, 12, 13, 14]\<rparr>"

definition xo_zero :: xoshiro256starstar_state where
  "xo_zero = \<lparr>xo_s = [0, 0, 0, 0], xo_has_uint32 = 0, xo_uinteger = 0\<rparr>"

definition xo_used :: xoshiro256starstar_state where
  "xo_used = \<lparr>xo_s = [1, 2, 3, 4], xo_has_uint32 = 1, xo_uinteger = 7\<rparr>"

section \<open>Properties\<close>

subsection \<open>Loops\<close>

lemma repeat_loop_exit:
  "passes body n s = Some s' \<Longrightarrow> body s' = Some (Inl r) \<Longrightarrow> repeat_loop body s = Some r"
proof (induction n arbitrary: s)
  case 0
  then show ?case by (simp add: repeat_loop.simps)
next
  case (Suc n)
  then show ?case
    by (subst repeat_loop.simps) (auto split: option.splits sum.splits)
qed

lemma repeat_loop_SomeD:
  assumes "repeat_loop body s = Some r"
  shows "\<exists>n s'. passes body n s = Some s' \<and> body s' = Some (Inl r)"
proof (rule repeat_loop.raw_induct
    [where P = "\<lambda>b s r. \<exists>n s'. passes b n s = Some s' \<and> b s' = Some (Inl r)", OF _ assms])
  fix rl b s y
  assume IH: "\<And>s b y. rl s b = Some y \<Longrightarrow> \<exists>n s'. passes s n b = Some s' \<and> s s' = Some (Inl y)"
    and eq: "(case b s of None \<Rightarrow> None | Some (Inl r) \<Rightarrow> Some r | Some (Inr s') \<Rightarrow> rl b s') = Some y"
  show "\<exists>n s'. passes b n s = Some s' \<and> b s' = Some (Inl y)"
  proof (cases "b s")
    case None
    with eq show ?thesis by simp
  next
    case (Some v)
    show ?thesis
    proof (cases v)
      case (Inl r)
      with Some eq have "b s = Some (Inl y)" by simp
      then have "passes b 0 s = Some s \<and> b s = Some (Inl y)" by simp
      then show ?thesis by blast
    next
      case (Inr s1)
      with Some eq have "rl b s1 = Some y" by simp
      from IH[OF this] obtain n s' where "passes b n s1 = Some s'" "b s' = Some (Inl y)" by blast
      with Some Inr have "passes b (Suc n) s = Some s' \<and> b s' = Some (Inl y)" by simp
      then show ?thesis by blast
    qed
  qed
qed

lemma passes_Suc_end:
  "passes body (Suc n) s = Some s'' \<longleftrightarrow>
     (\<exists>s'. passes body n s = Some s' \<and> body s' = Some (Inr s''))"
  by (induction n arbitrary: s) (auto split: option.splits sum.splits)

lemma repeat_loop_None:
  assumes "\<And>n. \<exists>s'. passes body n s = Some s'"
  shows "repeat_loop body s = None"
proof (cases "repeat_loop body s")
  case None
  then show ?thesis .
next
  case (Some r)
  from repeat_loop_SomeD[OF this] obtain n s'
    where a: "passes body n s = Some s'" "body s' = Some (Inl r)" by blast
  from assms[of "Suc n"] obtain s'' where "passes body (Suc n) s = Some s''" by blast
  then obtain s1 where "passes body n s = Some s1" "body s1 = Some (Inr s'')"
    unfolding passes_Suc_end by blast
  with a show ?thesis by simp
qed

subsection \<open>legacy_gauss\<close>

lemma legacy_double_frame:
  "has_gauss (snd (legacy_double a)) = has_gauss a"
  "gauss (snd (legacy_double a)) = gauss a"
  "next_double (basicrng (snd (legacy_double a))) = next_double (basicrng a)"
  by (simp_all add: legacy_double_def Let_def split: prod.splits)

lemma after_draws_frame:
  "has_gauss (after_draws k a) = has_gauss a"
  "gauss (after_draws k a) = gauss a"
  by (induction k arbitrary: a) (simp_all add: legacy_double_frame)

lemma after_draws_add: "after_draws (m + n) a = after_draws n (after_draws m a)"
  by (induction m arbitrary: a) simp_all

lemma after_draws_Suc_end: "after_draws (Suc k) a = snd (legacy_double (after_draws k a))"
  by (induction k arbitrary: a) simp_all

lemma uniform_at_shift: "uniform_at (m + k) a = uniform_at k (after_draws m a)"
  by (simp add: uniform_at_def after_draws_add)

lemma polar_shift:
  "polar_x1 fp a (Suc k) = polar_x1 fp (after_draws 2 a) k"
  "polar_x2 fp a (Suc k) = polar_x2 fp (after_draws 2 a) k"
  "polar_r2 fp a (Suc k) = polar_r2 fp (after_draws 2 a) k"
  "polar_rejected fp a (Suc k) = polar_rejected fp (after_draws 2 a) k"
  "polar_f fp a (Suc k) = polar_f fp (after_draws 2 a) k"
proof -
  have u1: "uniform_at (2 * Suc k) a = uniform_at (2 * k) (after_draws 2 a)"
    using uniform_at_shift[of 2 "2 * k" a] by simp
  have u2: "uniform_at (2 * Suc k + 1) a = uniform_at (2 * k + 1) (after_draws 2 a)"
    using uniform_at_shift[of 2 "2 * k + 1" a] by simp
  show x1: "polar_x1 fp a (Suc k) = polar_x1 fp (after_draws 2 a) k"
    unfolding polar_x1_def u1 ..
  show x2: "polar_x2 fp a (Suc k) = polar_x2 fp (after_draws 2 a) k"
    unfolding polar_x2_def u2 ..
  show r2: "polar_r2 fp a (Suc k) = polar_r2 fp (after_draws 2 a) k"
    unfolding polar_r2_def x1 x2 ..
  show "polar_rejected fp a (Suc k) = polar_rejected fp (after_draws 2 a) k"
    unfolding polar_rejected_def r2 ..
  show "polar_f fp a (Suc k) = polar_f fp (after_draws 2 a) k"
    unfolding polar_f_def r2 ..
qed

lemma legacy_gauss_pass_polar:
  "legacy_gauss_pass fp a =
     (if polar_rejected fp a 0 then Inr (after_draws 2 a)
      else Inl (polar_x1 fp a 0, polar_x2 fp a 0, polar_r2 fp a 0, after_draws 2 a))"
  by (simp add: legacy_gauss_pass_def polar_rejected_def polar_r2_def polar_x1_def polar_x2_def
      uniform_at_def Let_def numeral_2_eq_2 split: prod.splits)

lemma passes_gauss:
  "(\<forall>k<n. polar_rejected fp a k) \<Longrightarrow>
     passes (\<lambda>a. Some (legacy_gauss_pass fp a)) n a = Some (after_draws (2 * n) a)"
proof (induction n arbitrary: a)
  case 0
  show ?case by simp
next
  case (Suc n)
  from Suc.prems have r0: "polar_rejected fp a 0" by simp
  from Suc.prems have "\<forall>k<n. polar_rejected fp (after_draws 2 a) k"
    by (auto simp: polar_shift[symmetric])
  from Suc.IH[OF this] have
    "passes (\<lambda>a. Some (legacy_gauss_pass fp a)) n (after_draws 2 a) = Some (after_draws (2 * n) (after_draws 2 a))" .
  moreover have "after_draws (2 * n) (after_draws 2 a) = after_draws (2 * Suc n) a"
    using after_draws_add[of 2 "2 * n" a] by simp
  ultimately show ?case using r0 by (simp add: legacy_gauss_pass_polar)
qed

lemma polar_at:
  "polar_x1 fp a n = polar_x1 fp (after_draws (2 * n) a) 0"
  "polar_x2 fp a n = polar_x2 fp (after_draws (2 * n) a) 0"
  "polar_r2 fp a n = polar_r2 fp (after_draws (2 * n) a) 0"
  "polar_rejected fp a n = polar_rejected fp (after_draws (2 * n) a) 0"
proof -
  have u1: "uniform_at (2 * n) a = uniform_at 0 (after_draws (2 * n) a)"
    using uniform_at_shift[of "2 * n" 0 a] by simp
  have u2: "uniform_at (2 * n + 1) a = uniform_at 1 (after_draws (2 * n) a)"
    using uniform_at_shift[of "2 * n" 1 a] by simp
  show x1: "polar_x1 fp a n = polar_x1 fp (after_draws (2 * n) a) 0"
    unfolding polar_x1_def u1 by simp
  show x2: "polar_x2 fp a n = polar_x2 fp (after_draws (2 * n) a) 0"
    unfolding polar_x2_def u2 by simp
  show r2: "polar_r2 fp a n = polar_r2 fp (after_draws (2 * n) a) 0"
    unfolding polar_r2_def x1 x2 ..
  show "polar_rejected fp a n = polar_rejected fp (after_draws (2 * n) a) 0"
    unfolding polar_rejected_def r2 ..
qed

lemma gauss_loop_accept:
  assumes "\<forall>k<n. polar_rejected fp a k" and "\<not> polar_rejected fp a n"
  shows "repeat_loop (\<lambda>a. Some (legacy_gauss_pass fp a)) a =
           Some (polar_x1 fp a n, polar_x2 fp a n, polar_r2 fp a n, after_draws (2 * n + 2) a)"
proof -
  have p: "passes (\<lambda>a. Some (legacy_gauss_pass fp a)) n a = Some (after_draws (2 * n) a)"
    using assms(1) by (rule passes_gauss)
  have d: "after_draws 2 (after_draws (2 * n) a) = after_draws (2 * n + 2) a"
    using after_draws_add[of "2 * n" 2 a] by simp
  have "Some (legacy_gauss_pass fp (after_draws (2 * n) a)) =
          Some (Inl (polar_x1 fp a n, polar_x2 fp a n, polar_r2 fp a n, after_draws (2 * n + 2) a))"
    using assms(2) by (simp add: legacy_gauss_pass_polar polar_at[symmetric] d)
  with p show ?thesis by (rule repeat_loop_exit)
qed

lemma gauss_loop_reject:
  assumes "\<forall>k. polar_rejected fp a k"
  shows "repeat_loop (\<lambda>a. Some (legacy_gauss_pass fp a)) a = None"
proof (rule repeat_loop_None)
  fix n
  from assms have "\<forall>k<n. polar_rejected fp a k" by simp
  from passes_gauss[OF this]
  show "\<exists>s'. passes (\<lambda>a. Some (legacy_gauss_pass fp a)) n a = Some s'" by blast
qed

text \<open>
  Claim C1. With \<open>has_gauss\<close> false, \<open>legacy_gauss\<close> draws the uniforms in pairs,
  \<open>x1 = 2u - 1\<close> from the first and \<open>x2 = 2u - 1\<close> from the second, and rejects a pair while
  \<open>r2 = x1*x1 + x2*x2\<close> is \<open>>= 1\<close> or \<open>== 0\<close>. When the pairs \<open>0 .. n-1\<close> are rejected and
  pair \<open>n\<close> is accepted, it has consumed \<open>2n + 2\<close> uniforms, returns \<open>f * x2\<close> and leaves
  \<open>f * x1\<close> in the cache with \<open>has_gauss\<close> true, where \<open>f = sqrt (-2 * log r2 / r2)\<close>; the
  very next call returns the cached \<open>f * x1\<close>, leaves the generator where it was, and
  clears the cache. With \<open>has_gauss\<close> true a call returns the cached value, consumes no
  uniform and clears the cache. When every pair is rejected the call does not return.
\<close>

theorem legacy_gauss_cache_law:
  "(has_gauss a \<longrightarrow>
      legacy_gauss fp a = Some (gauss a, a\<lparr>has_gauss := False, gauss := lit fp 0\<rparr>)) \<and>
   (\<not> has_gauss a \<and> (\<forall>k<n. polar_rejected fp a k) \<and> \<not> polar_rejected fp a n \<longrightarrow>
      legacy_gauss fp a =
        Some (fmul fp (polar_f fp a n) (polar_x2 fp a n),
              (after_draws (2 * n + 2) a)
                \<lparr>gauss := fmul fp (polar_f fp a n) (polar_x1 fp a n), has_gauss := True\<rparr>) \<and>
      legacy_gauss fp
          ((after_draws (2 * n + 2) a)
             \<lparr>gauss := fmul fp (polar_f fp a n) (polar_x1 fp a n), has_gauss := True\<rparr>) =
        Some (fmul fp (polar_f fp a n) (polar_x1 fp a n),
              (after_draws (2 * n + 2) a)\<lparr>gauss := lit fp 0, has_gauss := False\<rparr>)) \<and>
   (\<not> has_gauss a \<and> (\<forall>k. polar_rejected fp a k) \<longrightarrow> legacy_gauss fp a = None)"
proof (intro conjI impI)
  assume "has_gauss a"
  then show "legacy_gauss fp a = Some (gauss a, a\<lparr>has_gauss := False, gauss := lit fp 0\<rparr>)"
    by (simp add: legacy_gauss_def Let_def)
next
  assume h: "\<not> has_gauss a \<and> (\<forall>k<n. polar_rejected fp a k) \<and> \<not> polar_rejected fp a n"
  then have "repeat_loop (\<lambda>a. Some (legacy_gauss_pass fp a)) a =
           Some (polar_x1 fp a n, polar_x2 fp a n, polar_r2 fp a n, after_draws (2 * n + 2) a)"
    using gauss_loop_accept[of n fp a] by blast
  with h show "legacy_gauss fp a =
        Some (fmul fp (polar_f fp a n) (polar_x2 fp a n),
              (after_draws (2 * n + 2) a)
                \<lparr>gauss := fmul fp (polar_f fp a n) (polar_x1 fp a n), has_gauss := True\<rparr>)"
    by (simp add: legacy_gauss_def polar_f_def Let_def)
next
  show "legacy_gauss fp
          ((after_draws (2 * n + 2) a)
             \<lparr>gauss := fmul fp (polar_f fp a n) (polar_x1 fp a n), has_gauss := True\<rparr>) =
        Some (fmul fp (polar_f fp a n) (polar_x1 fp a n),
              (after_draws (2 * n + 2) a)\<lparr>gauss := lit fp 0, has_gauss := False\<rparr>)"
    by (simp add: legacy_gauss_def Let_def)
next
  assume "\<not> has_gauss a \<and> (\<forall>k. polar_rejected fp a k)"
  then show "legacy_gauss fp a = None"
    by (simp add: legacy_gauss_def gauss_loop_reject)
qed


lemma list_aug_exhausted: "after_draws k (list_aug []) = list_aug []"
  by (induction k) (simp_all add: list_aug_def list_brng_def legacy_double_def)

lemma list_aug_exhausted_rejected: "polar_rejected exact_fpu (list_aug []) k"
  by (simp add: polar_rejected_def polar_r2_def polar_x1_def polar_x2_def uniform_at_def
      list_aug_exhausted)
     (simp add: list_aug_def list_brng_def legacy_double_def exact_fpu_def)

lemma list_aug_rejected_0: "polar_rejected exact_fpu (list_aug [1/2, 1/2, 1/4, 1/4]) 0"
  by (simp add: polar_rejected_def polar_r2_def polar_x1_def polar_x2_def uniform_at_def
      list_aug_def list_brng_def legacy_double_def exact_fpu_def)

lemma list_aug_accepted_1: "\<not> polar_rejected exact_fpu (list_aug [1/2, 1/2, 1/4, 1/4]) 1"
  by (simp add: polar_rejected_def polar_r2_def polar_x1_def polar_x2_def uniform_at_def
      list_aug_def list_brng_def legacy_double_def exact_fpu_def numeral_2_eq_2 numeral_3_eq_3)

theorem legacy_gauss_cache_law_witness:
  "\<not> has_gauss (list_aug [1/2, 1/2, 1/4, 1/4]) \<and>
   polar_rejected exact_fpu (list_aug [1/2, 1/2, 1/4, 1/4]) 0 \<and>
   \<not> polar_rejected exact_fpu (list_aug [1/2, 1/2, 1/4, 1/4]) 1 \<and>
   polar_x1 exact_fpu (list_aug [1/2, 1/2, 1/4, 1/4]) 1 = Num (- 1/2) \<and>
   polar_x2 exact_fpu (list_aug [1/2, 1/2, 1/4, 1/4]) 1 = Num (- 1/2) \<and>
   polar_r2 exact_fpu (list_aug [1/2, 1/2, 1/4, 1/4]) 1 = Num (1/2) \<and>
   after_draws (2 * 1 + 2) (list_aug [1/2, 1/2, 1/4, 1/4]) = list_aug [] \<and>
   legacy_gauss exact_fpu (list_aug [1/2, 1/2, 1/4, 1/4]) =
     Some (fmul exact_fpu (polar_f exact_fpu (list_aug [1/2, 1/2, 1/4, 1/4]) 1)
             (polar_x2 exact_fpu (list_aug [1/2, 1/2, 1/4, 1/4]) 1),
           (after_draws (2 * 1 + 2) (list_aug [1/2, 1/2, 1/4, 1/4]))
             \<lparr>gauss := fmul exact_fpu (polar_f exact_fpu (list_aug [1/2, 1/2, 1/4, 1/4]) 1)
                 (polar_x1 exact_fpu (list_aug [1/2, 1/2, 1/4, 1/4]) 1),
              has_gauss := True\<rparr>) \<and>
   (\<forall>k. polar_rejected exact_fpu (list_aug []) k) \<and>
   legacy_gauss exact_fpu (list_aug []) = None"
proof -
  let ?a = "list_aug [1/2, 1/2, 1/4, 1/4]"
  have h: "\<not> has_gauss ?a" by (simp add: list_aug_def)
  have r: "\<forall>k<1. polar_rejected exact_fpu ?a k" using list_aug_rejected_0 by simp
  have d: "after_draws (2 * 1 + 2) ?a = list_aug []"
    by (simp add: list_aug_def list_brng_def legacy_double_def numeral_2_eq_2)
  have x1: "polar_x1 exact_fpu ?a 1 = Num (- 1/2)"
    by (simp add: polar_x1_def uniform_at_def
      list_aug_def list_brng_def legacy_double_def exact_fpu_def numeral_2_eq_2)
  have x2: "polar_x2 exact_fpu ?a 1 = Num (- 1/2)"
    by (simp add: polar_x2_def uniform_at_def
      list_aug_def list_brng_def legacy_double_def exact_fpu_def numeral_2_eq_2 numeral_3_eq_3)
  have r2: "polar_r2 exact_fpu ?a 1 = Num (1/2)"
    unfolding polar_r2_def x1 x2 by (simp add: exact_fpu_def)
  have e: "\<not> has_gauss (list_aug [])" by (simp add: list_aug_def)
  have g: "legacy_gauss exact_fpu ?a =
     Some (fmul exact_fpu (polar_f exact_fpu ?a 1) (polar_x2 exact_fpu ?a 1),
           (after_draws (2 * 1 + 2) ?a)
             \<lparr>gauss := fmul exact_fpu (polar_f exact_fpu ?a 1) (polar_x1 exact_fpu ?a 1),
              has_gauss := True\<rparr>)"
    using legacy_gauss_cache_law[of ?a exact_fpu 1] h r list_aug_accepted_1 by blast
  have n: "legacy_gauss exact_fpu (list_aug []) = None"
    using legacy_gauss_cache_law[of "list_aug []" exact_fpu 0] e list_aug_exhausted_rejected
    by blast
  show ?thesis
    using h list_aug_rejected_0 list_aug_accepted_1 x1 x2 r2 d g n list_aug_exhausted_rejected
    by blast
qed

subsection \<open>legacy_standard_gamma\<close>

lemma legacy_standard_exponential_uniform:
  "legacy_standard_exponential fp a =
     (fneg fp (flog fp (fsub fp (lit fp 1) (uniform_at 0 a))), after_draws 1 a)"
  by (simp add: legacy_standard_exponential_def uniform_at_def split: prod.splits)

lemma gamma_small_pass_trial:
  "gamma_small_pass fp shape a =
     (case gamma_small_trial fp shape a 0 of
        Some X \<Rightarrow> Inl (X, after_draws 2 a)
      | None \<Rightarrow> Inr (after_draws 2 a))"
  by (simp add: gamma_small_pass_def gamma_small_trial_def gamma_small_accept_def
      legacy_standard_exponential_def uniform_at_def Let_def numeral_2_eq_2 split: prod.splits)

lemma gamma_small_trial_shift:
  "gamma_small_trial fp shape a (m + k) = gamma_small_trial fp shape (after_draws (2 * m) a) k"
proof -
  have u1: "uniform_at (2 * (m + k)) a = uniform_at (2 * k) (after_draws (2 * m) a)"
    using uniform_at_shift[of "2 * m" "2 * k" a] by (simp add: algebra_simps)
  have u2: "uniform_at (2 * (m + k) + 1) a = uniform_at (2 * k + 1) (after_draws (2 * m) a)"
    using uniform_at_shift[of "2 * m" "2 * k + 1" a] by (simp add: algebra_simps)
  show ?thesis unfolding gamma_small_trial_def u1 u2 ..
qed

lemma passes_gamma_small:
  "(\<forall>k<n. gamma_small_trial fp shape a k = None) \<Longrightarrow>
     passes (\<lambda>a. Some (gamma_small_pass fp shape a)) n a = Some (after_draws (2 * n) a)"
proof (induction n arbitrary: a)
  case 0
  show ?case by simp
next
  case (Suc n)
  from Suc.prems have r0: "gamma_small_trial fp shape a 0 = None" by simp
  have "\<forall>k<n. gamma_small_trial fp shape (after_draws 2 a) k = None"
  proof (intro allI impI)
    fix k assume "k < n"
    with Suc.prems have "gamma_small_trial fp shape a (1 + k) = None" by simp
    then show "gamma_small_trial fp shape (after_draws 2 a) k = None"
      using gamma_small_trial_shift[of fp shape a 1 k] by simp
  qed
  from Suc.IH[OF this] have
    "passes (\<lambda>a. Some (gamma_small_pass fp shape a)) n (after_draws 2 a) =
       Some (after_draws (2 * n) (after_draws 2 a))" .
  moreover have "after_draws (2 * n) (after_draws 2 a) = after_draws (2 * Suc n) a"
    using after_draws_add[of 2 "2 * n" a] by simp
  ultimately show ?case using r0 by (simp add: gamma_small_pass_trial)
qed

lemma gamma_small_loop_accept:
  assumes "\<forall>k<n. gamma_small_trial fp shape a k = None"
    and "gamma_small_trial fp shape a n = Some X"
  shows "repeat_loop (\<lambda>a. Some (gamma_small_pass fp shape a)) a =
           Some (X, after_draws (2 * n + 2) a)"
proof -
  have p: "passes (\<lambda>a. Some (gamma_small_pass fp shape a)) n a = Some (after_draws (2 * n) a)"
    using assms(1) by (rule passes_gamma_small)
  have d: "after_draws 2 (after_draws (2 * n) a) = after_draws (2 * n + 2) a"
    using after_draws_add[of "2 * n" 2 a] by simp
  have t: "gamma_small_trial fp shape (after_draws (2 * n) a) 0 = Some X"
    using gamma_small_trial_shift[of fp shape a n 0] assms(2) by simp
  have "Some (gamma_small_pass fp shape (after_draws (2 * n) a)) =
          Some (Inl (X, after_draws (2 * n + 2) a))"
    unfolding gamma_small_pass_trial t d by simp
  with p show ?thesis by (rule repeat_loop_exit)
qed

lemma gamma_small_loop_reject:
  assumes "\<forall>k. gamma_small_trial fp shape a k = None"
  shows "repeat_loop (\<lambda>a. Some (gamma_small_pass fp shape a)) a = None"
proof (rule repeat_loop_None)
  fix n
  from assms have "\<forall>k<n. gamma_small_trial fp shape a k = None" by simp
  from passes_gamma_small[OF this]
  show "\<exists>s'. passes (\<lambda>a. Some (gamma_small_pass fp shape a)) n a = Some s'" by blast
qed

lemma gamma_inner_loop:
  "gauss_draws fp (Suc (length xs)) a = Some (xs @ [X], a1) \<Longrightarrow>
   (\<forall>x\<in>set xs. fle fp (fadd fp (lit fp 1) (fmul fp c x)) (lit fp 0)) \<Longrightarrow>
   \<not> fle fp (fadd fp (lit fp 1) (fmul fp c X)) (lit fp 0) \<Longrightarrow>
   repeat_loop (gamma_inner_pass fp c) a = Some (X, fadd fp (lit fp 1) (fmul fp c X), a1)"
proof (induction xs arbitrary: a)
  case Nil
  then show ?case
    by (subst repeat_loop.simps)
       (auto simp: gamma_inner_pass_def Let_def split: option.splits prod.splits)
next
  case (Cons x xs)
  from Cons.prems(1) obtain a' where
    g: "legacy_gauss fp a = Some (x, a')" and
    r: "gauss_draws fp (Suc (length xs)) a' = Some (xs @ [X], a1)"
    by (auto split: option.splits prod.splits)
  from Cons.prems(2) have rej: "fle fp (fadd fp (lit fp 1) (fmul fp c x)) (lit fp 0)"
    and rest: "\<forall>x\<in>set xs. fle fp (fadd fp (lit fp 1) (fmul fp c x)) (lit fp 0)" by simp_all
  have "repeat_loop (gamma_inner_pass fp c) a' = Some (X, fadd fp (lit fp 1) (fmul fp c X), a1)"
    using Cons.IH[OF r rest Cons.prems(3)] .
  moreover have "gamma_inner_pass fp c a = Some (Inr a')"
    using g rej by (simp add: gamma_inner_pass_def Let_def)
  ultimately show ?case by (subst repeat_loop.simps) simp
qed

lemma gamma_outer_pass_trial:
  assumes "gauss_draws fp (Suc (length xs)) a = Some (xs @ [X], a1)"
    and "\<forall>x\<in>set xs. fle fp (fadd fp (lit fp 1) (fmul fp c x)) (lit fp 0)"
    and "\<not> fle fp (fadd fp (lit fp 1) (fmul fp c X)) (lit fp 0)"
    and "V = fadd fp (lit fp 1) (fmul fp c X)"
  shows "gamma_outer_pass fp b c a =
     Some (if gamma_squeeze_accept fp b X (fmul fp (fmul fp V V) V) (uniform_at 0 a1)
           then Inl (fmul fp b (fmul fp (fmul fp V V) V), after_draws 1 a1)
           else Inr (after_draws 1 a1))"
proof -
  have "repeat_loop (gamma_inner_pass fp c) a = Some (X, V, a1)"
    using gamma_inner_loop[OF assms(1-3)] assms(4) by simp
  then show ?thesis
    by (simp add: gamma_outer_pass_def gamma_squeeze_accept_def uniform_at_def Let_def
        split: prod.splits)
qed

text \<open>
  Claim C4. \<open>legacy_standard_gamma\<close> tests \<open>shape == 1\<close>, then \<open>shape == 0\<close>, then
  \<open>shape < 1\<close>, in this order. On \<open>shape == 1\<close> it returns one standard exponential draw
  (one uniform). On \<open>shape == 0\<close> it returns 0.0 and draws nothing. On \<open>shape < 1\<close> each trial
  draws one uniform \<open>U\<close> and then one standard exponential \<open>V\<close>, and \<open>U <= 1 - shape\<close>
  decides which of the two acceptance tests applies: when the trials \<open>0 .. n-1\<close> reject and
  trial \<open>n\<close> accepts \<open>X\<close>, the call returns \<open>X\<close> after \<open>2n + 2\<close> uniforms, and when every
  trial rejects it does not return. Otherwise (for an ordered \<open>shape\<close> this is \<open>shape > 1\<close>),
  with \<open>b = shape - 1/3\<close> and \<open>c = 1 / sqrt (9 * b)\<close>, one outer trial calls \<open>legacy_gauss\<close>
  (which serves and fills the cache) until \<open>V = 1 + c * X\<close> is positive, then draws one
  uniform and applies the two squeeze tests, returning \<open>b * V * V * V\<close> on acceptance and
  going on from the state after that uniform otherwise, in which the cache is as the last
  gauss call left it; the call returns what the first accepting outer trial returns.
\<close>

theorem legacy_standard_gamma_branches:
  "(feq fp shape (lit fp 1) \<longrightarrow>
      legacy_standard_gamma fp a shape =
        Some (fneg fp (flog fp (fsub fp (lit fp 1) (uniform_at 0 a))), after_draws 1 a)) \<and>
   (\<not> feq fp shape (lit fp 1) \<and> feq fp shape (lit fp 0) \<longrightarrow>
      legacy_standard_gamma fp a shape = Some (lit fp 0, a)) \<and>
   (\<not> feq fp shape (lit fp 1) \<and> \<not> feq fp shape (lit fp 0) \<and> flt fp shape (lit fp 1) \<longrightarrow>
      ((\<forall>k<n. gamma_small_trial fp shape a k = None) \<and>
       gamma_small_trial fp shape a n = Some X \<longrightarrow>
         legacy_standard_gamma fp a shape = Some (X, after_draws (2 * n + 2) a)) \<and>
      ((\<forall>k. gamma_small_trial fp shape a k = None) \<longrightarrow>
         legacy_standard_gamma fp a shape = None)) \<and>
   (\<not> feq fp shape (lit fp 1) \<and> \<not> feq fp shape (lit fp 0) \<and> \<not> flt fp shape (lit fp 1) \<and>
    b = fsub fp shape (fdiv fp (lit fp 1) (lit fp 3)) \<and>
    c = fdiv fp (lit fp 1) (fsqrt fp (fmul fp (lit fp 9) b)) \<longrightarrow>
      (gauss_draws fp (Suc (length gs)) a' = Some (gs @ [G], a1) \<and>
       (\<forall>g\<in>set gs. fle fp (fadd fp (lit fp 1) (fmul fp c g)) (lit fp 0)) \<and>
       \<not> fle fp (fadd fp (lit fp 1) (fmul fp c G)) (lit fp 0) \<and>
       V = fadd fp (lit fp 1) (fmul fp c G) \<longrightarrow>
         gamma_outer_pass fp b c a' =
           Some (if gamma_squeeze_accept fp b G (fmul fp (fmul fp V V) V) (uniform_at 0 a1)
                 then Inl (fmul fp b (fmul fp (fmul fp V V) V), after_draws 1 a1)
                 else Inr (after_draws 1 a1))) \<and>
      (passes (gamma_outer_pass fp b c) m a = Some a' \<and>
       gamma_outer_pass fp b c a' = Some (Inl r) \<longrightarrow>
         legacy_standard_gamma fp a shape = Some r)) \<and>
   has_gauss (after_draws 1 a1) = has_gauss a1 \<and> gauss (after_draws 1 a1) = gauss a1"
proof (intro conjI impI)
  assume "feq fp shape (lit fp 1)"
  then show "legacy_standard_gamma fp a shape =
        Some (fneg fp (flog fp (fsub fp (lit fp 1) (uniform_at 0 a))), after_draws 1 a)"
    unfolding legacy_standard_gamma_def legacy_standard_exponential_uniform by simp
next
  assume "\<not> feq fp shape (lit fp 1) \<and> feq fp shape (lit fp 0)"
  then show "legacy_standard_gamma fp a shape = Some (lit fp 0, a)"
    by (simp add: legacy_standard_gamma_def)
next
  assume h: "\<not> feq fp shape (lit fp 1) \<and> \<not> feq fp shape (lit fp 0) \<and> flt fp shape (lit fp 1)"
    and t: "(\<forall>k<n. gamma_small_trial fp shape a k = None) \<and>
       gamma_small_trial fp shape a n = Some X"
  have "repeat_loop (\<lambda>a. Some (gamma_small_pass fp shape a)) a =
           Some (X, after_draws (2 * n + 2) a)"
    using gamma_small_loop_accept[of n fp shape a X] t by blast
  then show "legacy_standard_gamma fp a shape = Some (X, after_draws (2 * n + 2) a)"
    unfolding legacy_standard_gamma_def using h by simp
next
  assume h: "\<not> feq fp shape (lit fp 1) \<and> \<not> feq fp shape (lit fp 0) \<and> flt fp shape (lit fp 1)"
    and t: "\<forall>k. gamma_small_trial fp shape a k = None"
  have "repeat_loop (\<lambda>a. Some (gamma_small_pass fp shape a)) a = None"
    using t by (rule gamma_small_loop_reject)
  then show "legacy_standard_gamma fp a shape = None"
    unfolding legacy_standard_gamma_def using h by simp
next
  assume t: "gauss_draws fp (Suc (length gs)) a' = Some (gs @ [G], a1) \<and>
       (\<forall>g\<in>set gs. fle fp (fadd fp (lit fp 1) (fmul fp c g)) (lit fp 0)) \<and>
       \<not> fle fp (fadd fp (lit fp 1) (fmul fp c G)) (lit fp 0) \<and>
       V = fadd fp (lit fp 1) (fmul fp c G)"
  show "gamma_outer_pass fp b c a' =
           Some (if gamma_squeeze_accept fp b G (fmul fp (fmul fp V V) V) (uniform_at 0 a1)
                 then Inl (fmul fp b (fmul fp (fmul fp V V) V), after_draws 1 a1)
                 else Inr (after_draws 1 a1))"
    using gamma_outer_pass_trial[of fp gs a' G a1 c V b] t by blast
next
  assume h: "\<not> feq fp shape (lit fp 1) \<and> \<not> feq fp shape (lit fp 0) \<and> \<not> flt fp shape (lit fp 1) \<and>
    b = fsub fp shape (fdiv fp (lit fp 1) (lit fp 3)) \<and>
    c = fdiv fp (lit fp 1) (fsqrt fp (fmul fp (lit fp 9) b))"
    and t: "passes (gamma_outer_pass fp b c) m a = Some a' \<and>
       gamma_outer_pass fp b c a' = Some (Inl r)"
  have "repeat_loop (gamma_outer_pass fp b c) a = Some r"
    using t repeat_loop_exit[of "gamma_outer_pass fp b c" m a a' r] by blast
  then show "legacy_standard_gamma fp a shape = Some r"
    unfolding legacy_standard_gamma_def using h by (simp add: Let_def)
next
  show "has_gauss (after_draws 1 a1) = has_gauss a1" "gauss (after_draws 1 a1) = gauss a1"
    by (rule after_draws_frame)+
qed


lemma const_aug_draws: "after_draws k (const_aug u) = const_aug u"
  by (induction k) (simp_all add: const_aug_def const_brng_def legacy_double_def)

lemma const_aug_uniform: "uniform_at k (const_aug u) = Num u"
  by (simp add: uniform_at_def const_aug_draws) (simp add: const_aug_def const_brng_def legacy_double_def)

lemma const_half_rejected: "gamma_small_trial exact_fpu (Num (- 1)) (const_aug (1/2)) k = None"
proof -
  have "\<not> (2::real) \<le> ln 2" using ln_le_minus_one[of "2::real"] by linarith
  then show ?thesis
    by (simp add: gamma_small_trial_def gamma_small_accept_def const_aug_uniform exact_fpu_def
        ln_div powr_minus_divide)
qed

lemma small_trial_0: "gamma_small_trial exact_fpu (Num (1/2)) (list_aug [1/2, 0, 0, 0]) 0 = None"
  by (simp add: gamma_small_trial_def gamma_small_accept_def uniform_at_def
      list_aug_def list_brng_def legacy_double_def exact_fpu_def)

lemma small_trial_1: "gamma_small_trial exact_fpu (Num (1/2)) (list_aug [1/2, 0, 0, 0]) 1 = Some (Num 0)"
  by (simp add: gamma_small_trial_def gamma_small_accept_def uniform_at_def
      list_aug_def list_brng_def legacy_double_def exact_fpu_def numeral_2_eq_2 numeral_3_eq_3)

theorem legacy_standard_gamma_branches_witness:
  "feq exact_fpu (Num 1) (lit exact_fpu 1) \<and>
   legacy_standard_gamma exact_fpu (list_aug [0]) (Num 1) =
     Some (fneg exact_fpu (flog exact_fpu (fsub exact_fpu (lit exact_fpu 1)
             (uniform_at 0 (list_aug [0])))), after_draws 1 (list_aug [0])) \<and>
   \<not> feq exact_fpu (Num 0) (lit exact_fpu 1) \<and> feq exact_fpu (Num 0) (lit exact_fpu 0) \<and>
   legacy_standard_gamma exact_fpu (list_aug [0]) (Num 0) = Some (lit exact_fpu 0, list_aug [0]) \<and>
   \<not> feq exact_fpu (Num (1/2)) (lit exact_fpu 1) \<and>
   \<not> feq exact_fpu (Num (1/2)) (lit exact_fpu 0) \<and>
   flt exact_fpu (Num (1/2)) (lit exact_fpu 1) \<and>
   gamma_small_trial exact_fpu (Num (1/2)) (list_aug [1/2, 0, 0, 0]) 0 = None \<and>
   gamma_small_trial exact_fpu (Num (1/2)) (list_aug [1/2, 0, 0, 0]) 1 = Some (Num 0) \<and>
   legacy_standard_gamma exact_fpu (list_aug [1/2, 0, 0, 0]) (Num (1/2)) =
     Some (Num 0, after_draws (2 * 1 + 2) (list_aug [1/2, 0, 0, 0])) \<and>
   flt exact_fpu (Num (- 1)) (lit exact_fpu 1) \<and>
   (\<forall>k. gamma_small_trial exact_fpu (Num (- 1)) (const_aug (1/2)) k = None) \<and>
   legacy_standard_gamma exact_fpu (const_aug (1/2)) (Num (- 1)) = None \<and>
   \<not> flt exact_fpu (Num 3) (lit exact_fpu 1) \<and>
   gauss_draws exact_fpu (Suc (length []))
       \<lparr>basicrng = list_brng [0], has_gauss = True, gauss = Num 0\<rparr> =
     Some ([] @ [Num 0], list_aug [0]) \<and>
   \<not> fle exact_fpu (fadd exact_fpu (lit exact_fpu 1)
        (fmul exact_fpu (fdiv exact_fpu (lit exact_fpu 1) (fsqrt exact_fpu
           (fmul exact_fpu (lit exact_fpu 9) (Num (8/3))))) (Num 0))) (lit exact_fpu 0) \<and>
   gamma_squeeze_accept exact_fpu (Num (8/3)) (Num 0) (Num 1) (uniform_at 0 (list_aug [0])) \<and>
   legacy_standard_gamma exact_fpu
       \<lparr>basicrng = list_brng [0], has_gauss = True, gauss = Num 0\<rparr> (Num 3) =
     Some (Num (8/3), after_draws 1 (list_aug [0]))"
proof -
  let ?fp = exact_fpu
  note fp = exact_fpu_def
  let ?a4 = "\<lparr>basicrng = list_brng [0], has_gauss = True, gauss = Num 0\<rparr> :: (real list, exact) aug_brng_t"
  let ?b = "Num (8/3)"
  let ?c = "fdiv ?fp (lit ?fp 1) (fsqrt ?fp (fmul ?fp (lit ?fp 9) ?b))"
  have c: "?c = Num (1 / sqrt 24)" by (simp add: fp)
  have b: "?b = fsub ?fp (Num 3) (fdiv ?fp (lit ?fp 1) (lit ?fp 3))" by (simp add: fp)
  have s1: "feq ?fp (Num 1) (lit ?fp 1)" by (simp add: fp)
  have s0: "\<not> feq ?fp (Num 0) (lit ?fp 1)" "feq ?fp (Num 0) (lit ?fp 0)" by (simp_all add: fp)
  have sh: "\<not> feq ?fp (Num (1/2)) (lit ?fp 1)" "\<not> feq ?fp (Num (1/2)) (lit ?fp 0)"
    "flt ?fp (Num (1/2)) (lit ?fp 1)" by (simp_all add: fp)
  have sm: "\<not> feq ?fp (Num (- 1)) (lit ?fp 1)" "\<not> feq ?fp (Num (- 1)) (lit ?fp 0)"
    "flt ?fp (Num (- 1)) (lit ?fp 1)" by (simp_all add: fp)
  have s3: "\<not> feq ?fp (Num 3) (lit ?fp 1)" "\<not> feq ?fp (Num 3) (lit ?fp 0)"
    "\<not> flt ?fp (Num 3) (lit ?fp 1)" by (simp_all add: fp)
  have g: "gauss_draws ?fp (Suc (length [])) ?a4 = Some ([] @ [Num 0], list_aug [0])"
    by (simp add: legacy_gauss_def list_aug_def fp)
  have v: "fadd ?fp (lit ?fp 1) (fmul ?fp ?c (Num 0)) = Num 1" unfolding c by (simp add: fp)
  have nv: "\<not> fle ?fp (fadd ?fp (lit ?fp 1) (fmul ?fp ?c (Num 0))) (lit ?fp 0)"
    unfolding v by (simp add: fp)
  have vvv: "fmul ?fp (fmul ?fp (Num 1) (Num 1)) (Num 1) = Num 1" by (simp add: fp)
  have sq: "gamma_squeeze_accept ?fp ?b (Num 0) (Num 1) (uniform_at 0 (list_aug [0]))"
    by (simp add: gamma_squeeze_accept_def uniform_at_def list_aug_def list_brng_def
        legacy_double_def fp)
  have bv: "fmul ?fp ?b (Num 1) = Num (8/3)" by (simp add: fp)
  have r1: "legacy_standard_gamma ?fp (list_aug [0]) (Num 1) =
     Some (fneg ?fp (flog ?fp (fsub ?fp (lit ?fp 1) (uniform_at 0 (list_aug [0])))),
           after_draws 1 (list_aug [0]))"
    using legacy_standard_gamma_branches[of ?fp "Num 1" "list_aug [0]"] s1 by blast
  have r2: "legacy_standard_gamma ?fp (list_aug [0]) (Num 0) = Some (lit ?fp 0, list_aug [0])"
    using legacy_standard_gamma_branches[of ?fp "Num 0" "list_aug [0]"] s0 by blast
  have r3: "legacy_standard_gamma ?fp (list_aug [1/2, 0, 0, 0]) (Num (1/2)) =
     Some (Num 0, after_draws (2 * 1 + 2) (list_aug [1/2, 0, 0, 0]))"
    using legacy_standard_gamma_branches[of ?fp "Num (1/2)" "list_aug [1/2, 0, 0, 0]" 1 "Num 0"]
      sh small_trial_0 small_trial_1 by simp
  have r3n: "legacy_standard_gamma ?fp (const_aug (1/2)) (Num (- 1)) = None"
    using legacy_standard_gamma_branches[of ?fp "Num (- 1)" "const_aug (1/2)"]
      sm const_half_rejected by blast
  have pass: "gamma_outer_pass ?fp ?b ?c ?a4 = Some (Inl (Num (8/3), after_draws 1 (list_aug [0])))"
    using legacy_standard_gamma_branches[of ?fp "Num 3" _ _ _ ?b ?c "[]" ?a4 "Num 0"
        "list_aug [0]" "Num 1"] s3 b g nv v sq
    unfolding vvv bv by simp
  have r4: "legacy_standard_gamma ?fp ?a4 (Num 3) = Some (Num (8/3), after_draws 1 (list_aug [0]))"
    using legacy_standard_gamma_branches[of ?fp "Num 3" ?a4 _ _ ?b ?c _ ?a4 _ _ _ 0
        "(Num (8/3), after_draws 1 (list_aug [0]))"] s3 b pass
    by simp
  show ?thesis
    using s1 s0 sh sm(3) s3(3) small_trial_0 small_trial_1 const_half_rejected g nv sq r1 r2 r3 r3n r4
    by blast
qed

subsection \<open>legacy_noncentral_chisquare\<close>

lemma nan_laws_exact: "nan_laws exact_fpu"
proof -
  have a: "\<And>x y. exact_isnan x \<Longrightarrow> \<not> cmp2 (=) x y" by (case_tac x) simp_all
  have b: "\<And>x. exact_isnan x \<Longrightarrow> exact_isnan (exact_sqrt x)" by (case_tac x) simp_all
  have c: "\<And>x y. exact_isnan y \<Longrightarrow> exact_isnan (lift2 (+) x y)"
    by (case_tac x; case_tac y) simp_all
  have d: "\<And>x. exact_isnan x \<Longrightarrow> exact_isnan (lift2 (*) x x)" by (case_tac x) simp_all
  show ?thesis unfolding nan_laws_def exact_fpu_def using a b c d by simp
qed

lemma ncx2_nan_gt1:
  assumes "nan_laws fp" "fisnan fp nonc" "flt fp (lit fp 1) df"
  shows "map_option snd (legacy_noncentral_chisquare fp rp a df nonc) = ncx2_draws_gt1 fp a df"
    and "legacy_noncentral_chisquare fp rp a df nonc = Some (v, a') \<Longrightarrow> fisnan fp v"
proof -
  from assms(1,2) have ne: "\<not> feq fp nonc (lit fp 0)" by (simp add: nan_laws_def)
  from assms(1,2) have sq: "fisnan fp (fsqrt fp nonc)" by (simp add: nan_laws_def)
  have nn: "\<And>g. fisnan fp (fadd fp g (fsqrt fp nonc))"
    using assms(1) sq by (simp add: nan_laws_def)
  have res: "\<And>Chi2 g. fisnan fp (fadd fp Chi2
      (fmul fp (fadd fp g (fsqrt fp nonc)) (fadd fp g (fsqrt fp nonc))))"
    using assms(1) nn by (simp add: nan_laws_def)
  show "map_option snd (legacy_noncentral_chisquare fp rp a df nonc) = ncx2_draws_gt1 fp a df"
    using ne assms(3)
    by (simp add: legacy_noncentral_chisquare_def ncx2_draws_gt1_def Let_def
        split: option.splits prod.splits)
  show "legacy_noncentral_chisquare fp rp a df nonc = Some (v, a') \<Longrightarrow> fisnan fp v"
    using ne assms(3) res
    by (auto simp: legacy_noncentral_chisquare_def Let_def split: option.splits prod.splits)
qed

lemma ncx2_nan_le1:
  assumes "nan_laws fp" "fisnan fp nonc" "\<not> flt fp (lit fp 1) df"
  shows "legacy_noncentral_chisquare fp rp a df nonc =
           map_option (\<lambda>(out, a'). (NPY_NAN fp, a')) (ncx2_draws_le1 fp rp a df nonc)"
proof -
  from assms(1,2) have ne: "\<not> feq fp nonc (lit fp 0)" by (simp add: nan_laws_def)
  show ?thesis using ne assms(2,3)
    by (simp add: legacy_noncentral_chisquare_def ncx2_draws_le1_def
        split: option.splits prod.splits)
qed

text \<open>
  Claim C5. For every \<open>df\<close> and a NaN \<open>nonc\<close> (under the NaN laws of the arithmetic), the
  test \<open>nonc == 0\<close> fails and \<open>legacy_noncentral_chisquare\<close> performs the draws of its
  branch before it returns NaN: for \<open>1 < df\<close> it leaves the state the chi-square draw
  followed by the gauss draw leave, and whatever it returns is NaN; otherwise it returns
  \<open>NPY_NAN\<close> with the state that \<^verbatim>\<open>random_poisson\<close> followed by the chi-square draw leave,
  the guard coming after the sampling. It returns exactly when these draws return.
  Apart from NaN, the branches are selected on \<open>nonc == 0\<close> (a plain chi-square with \<open>df\<close>),
  then \<open>1 < df\<close> (chi-square with \<open>df - 1\<close> plus the square of a shifted gauss), else the
  Poisson mixture.
\<close>

theorem legacy_noncentral_chisquare_nan_after_draws:
  "(nan_laws fp \<and> fisnan fp nonc \<and> flt fp (lit fp 1) df \<longrightarrow>
      map_option snd (legacy_noncentral_chisquare fp rp a df nonc) = ncx2_draws_gt1 fp a df \<and>
      (\<forall>v a'. legacy_noncentral_chisquare fp rp a df nonc = Some (v, a') \<longrightarrow> fisnan fp v)) \<and>
   (nan_laws fp \<and> fisnan fp nonc \<and> \<not> flt fp (lit fp 1) df \<longrightarrow>
      legacy_noncentral_chisquare fp rp a df nonc =
        map_option (\<lambda>(out, a'). (NPY_NAN fp, a')) (ncx2_draws_le1 fp rp a df nonc) \<and>
      fisnan fp (NPY_NAN fp)) \<and>
   (feq fp nonc (lit fp 0) \<longrightarrow>
      legacy_noncentral_chisquare fp rp a df nonc = legacy_chisquare fp a df) \<and>
   (\<not> feq fp nonc (lit fp 0) \<and> flt fp (lit fp 1) df \<longrightarrow>
      legacy_noncentral_chisquare fp rp a df nonc =
        (case legacy_chisquare fp a (fsub fp df (lit fp 1)) of
           None \<Rightarrow> None
         | Some (Chi2, a1) \<Rightarrow>
             (case legacy_gauss fp a1 of
                None \<Rightarrow> None
              | Some (g, a2) \<Rightarrow>
                  Some (fadd fp Chi2 (fmul fp (fadd fp g (fsqrt fp nonc))
                                              (fadd fp g (fsqrt fp nonc))), a2)))) \<and>
   (\<not> feq fp nonc (lit fp 0) \<and> \<not> flt fp (lit fp 1) df \<and> \<not> fisnan fp nonc \<longrightarrow>
      legacy_noncentral_chisquare fp rp a df nonc = ncx2_draws_le1 fp rp a df nonc)"
proof (intro conjI impI allI)
  assume h: "nan_laws fp \<and> fisnan fp nonc \<and> flt fp (lit fp 1) df"
  then show "map_option snd (legacy_noncentral_chisquare fp rp a df nonc) = ncx2_draws_gt1 fp a df"
    using ncx2_nan_gt1(1)[of fp nonc df rp a] by blast
  fix v a'
  assume "legacy_noncentral_chisquare fp rp a df nonc = Some (v, a')"
  with h show "fisnan fp v" using ncx2_nan_gt1(2)[of fp nonc df rp a v a'] by blast
next
  assume h: "nan_laws fp \<and> fisnan fp nonc \<and> \<not> flt fp (lit fp 1) df"
  then show "legacy_noncentral_chisquare fp rp a df nonc =
        map_option (\<lambda>(out, a'). (NPY_NAN fp, a')) (ncx2_draws_le1 fp rp a df nonc)"
    using ncx2_nan_le1[of fp nonc df rp a] by blast
  from h show "fisnan fp (NPY_NAN fp)" by (simp add: nan_laws_def)
next
  assume "feq fp nonc (lit fp 0)"
  then show "legacy_noncentral_chisquare fp rp a df nonc = legacy_chisquare fp a df"
    by (simp add: legacy_noncentral_chisquare_def)
next
  assume "\<not> feq fp nonc (lit fp 0) \<and> flt fp (lit fp 1) df"
  then show "legacy_noncentral_chisquare fp rp a df nonc =
        (case legacy_chisquare fp a (fsub fp df (lit fp 1)) of
           None \<Rightarrow> None
         | Some (Chi2, a1) \<Rightarrow>
             (case legacy_gauss fp a1 of
                None \<Rightarrow> None
              | Some (g, a2) \<Rightarrow>
                  Some (fadd fp Chi2 (fmul fp (fadd fp g (fsqrt fp nonc))
                                              (fadd fp g (fsqrt fp nonc))), a2)))"
    by (simp add: legacy_noncentral_chisquare_def Let_def split: option.splits prod.splits)
next
  assume "\<not> feq fp nonc (lit fp 0) \<and> \<not> flt fp (lit fp 1) df \<and> \<not> fisnan fp nonc"
  then show "legacy_noncentral_chisquare fp rp a df nonc = ncx2_draws_le1 fp rp a df nonc"
    by (simp add: legacy_noncentral_chisquare_def ncx2_draws_le1_def
        split: option.splits prod.splits)
qed


lemma exact_isnan_iff: "fisnan exact_fpu v \<longleftrightarrow> v = NotANumber"
  by (cases v) (simp_all add: exact_fpu_def)

theorem legacy_noncentral_chisquare_nan_after_draws_witness:
  "nan_laws exact_fpu \<and> fisnan exact_fpu NotANumber \<and>
   flt exact_fpu (lit exact_fpu 1) (Num 3) \<and>
   legacy_noncentral_chisquare exact_fpu one_draw_poisson
       \<lparr>basicrng = list_brng [0], has_gauss = True, gauss = Num 0\<rparr> (Num 3) NotANumber =
     Some (NotANumber, list_aug []) \<and>
   \<not> flt exact_fpu (lit exact_fpu 1) (Num 0) \<and>
   legacy_noncentral_chisquare exact_fpu one_draw_poisson (list_aug [1/2]) (Num 0) NotANumber =
     Some (NotANumber, list_aug []) \<and>
   feq exact_fpu (Num 0) (lit exact_fpu 0) \<and>
   legacy_noncentral_chisquare exact_fpu one_draw_poisson (list_aug [1/2]) (Num 2) (Num 0) =
     legacy_chisquare exact_fpu (list_aug [1/2]) (Num 2) \<and>
   \<not> feq exact_fpu (Num 1) (lit exact_fpu 0) \<and> \<not> fisnan exact_fpu (Num 1) \<and>
   legacy_noncentral_chisquare exact_fpu one_draw_poisson
       \<lparr>basicrng = list_brng [0], has_gauss = True, gauss = Num 0\<rparr> (Num 3) (Num 1) =
     Some (Num 1, list_aug []) \<and>
   legacy_noncentral_chisquare exact_fpu one_draw_poisson (list_aug [1/2]) (Num 0) (Num 1) =
     Some (Num 0, list_aug [])"
proof -
  let ?fp = exact_fpu
  note fp = exact_fpu_def
  let ?a = "\<lparr>basicrng = list_brng [0], has_gauss = True, gauss = Num 0\<rparr> :: (real list, exact) aug_brng_t"
  let ?b = "list_aug [1/2]"
  note ev = legacy_chisquare_def legacy_standard_gamma_def legacy_standard_exponential_def
    legacy_double_def legacy_gauss_def list_brng_def list_aug_def one_draw_poisson_def
  have n: "fisnan ?fp NotANumber" by (simp add: fp)
  have gt: "flt ?fp (lit ?fp 1) (Num 3)" by (simp add: fp)
  have le: "\<not> flt ?fp (lit ?fp 1) (Num 0)" by (simp add: fp)
  have z: "feq ?fp (Num 0) (lit ?fp 0)" by (simp add: fp)
  have o: "\<not> feq ?fp (Num 1) (lit ?fp 0)" "\<not> fisnan ?fp (Num 1)" by (simp_all add: fp)
  have d1: "ncx2_draws_gt1 ?fp ?a (Num 3) = Some (list_aug [])"
    by (simp add: ncx2_draws_gt1_def ev fp)
  have d2: "ncx2_draws_le1 ?fp one_draw_poisson ?b (Num 0) NotANumber = Some (Num 0, list_aug [])"
    by (simp add: ncx2_draws_le1_def ev fp)
  have d3: "ncx2_draws_le1 ?fp one_draw_poisson ?b (Num 0) (Num 1) = Some (Num 0, list_aug [])"
    by (simp add: ncx2_draws_le1_def ev fp)
  note t1 = legacy_noncentral_chisquare_nan_after_draws[of ?fp NotANumber "Num 3" one_draw_poisson ?a]
  from t1 nan_laws_exact n gt d1
  have m: "map_option snd (legacy_noncentral_chisquare ?fp one_draw_poisson ?a (Num 3) NotANumber)
             = Some (list_aug [])"
    and nv: "\<And>v a'. legacy_noncentral_chisquare ?fp one_draw_poisson ?a (Num 3) NotANumber =
               Some (v, a') \<Longrightarrow> fisnan ?fp v"
    by simp_all
  from m obtain v where v: "legacy_noncentral_chisquare ?fp one_draw_poisson ?a (Num 3) NotANumber
      = Some (v, list_aug [])" by auto
  from nv[OF v] have "v = NotANumber" by (simp add: exact_isnan_iff)
  with v have r1: "legacy_noncentral_chisquare ?fp one_draw_poisson ?a (Num 3) NotANumber
      = Some (NotANumber, list_aug [])" by simp
  have r2: "legacy_noncentral_chisquare ?fp one_draw_poisson ?b (Num 0) NotANumber =
     Some (NotANumber, list_aug [])"
    using legacy_noncentral_chisquare_nan_after_draws[of ?fp NotANumber "Num 0" one_draw_poisson ?b]
      nan_laws_exact n le d2 by (simp add: fp)
  have r3: "legacy_noncentral_chisquare ?fp one_draw_poisson ?b (Num 2) (Num 0) =
     legacy_chisquare ?fp ?b (Num 2)"
    using legacy_noncentral_chisquare_nan_after_draws[of ?fp "Num 0" "Num 2" one_draw_poisson ?b] z
    by blast
  have r4: "legacy_noncentral_chisquare ?fp one_draw_poisson ?a (Num 3) (Num 1) =
     Some (Num 1, list_aug [])"
    using legacy_noncentral_chisquare_nan_after_draws[of ?fp "Num 1" "Num 3" one_draw_poisson ?a]
      o gt by (simp add: ev fp)
  have r5: "legacy_noncentral_chisquare ?fp one_draw_poisson ?b (Num 0) (Num 1) =
     Some (Num 0, list_aug [])"
    using legacy_noncentral_chisquare_nan_after_draws[of ?fp "Num 1" "Num 0" one_draw_poisson ?b]
      o le d3 by simp
  show ?thesis using nan_laws_exact n gt le z o r1 r2 r3 r4 r5 by blast
qed

subsection \<open>Statements\<close>

lemma upt_0_4: "[0..<4] = [0, 1, 2, 3]"
  by (simp add: upt_rec)

lemma seq_simps [simp]:
  "p st = (Inl e, st') \<Longrightarrow> seq p q st = (Inl e, st')"
  "p st = (Inr u, st') \<Longrightarrow> seq p q st = q st'"
  by (simp_all add: seq_def)

lemma assign_simps [simp]:
  "assign (Inl e) store st = (Inl e, st)"
  "assign (Inr v) store st = (Inr (), store v st)"
  by (simp_all add: assign_def)

lemma ebind_simps [simp]:
  "ebind (Inl e) f = Inl e"
  "ebind (Inr v) f = f v"
  by (simp_all add: ebind_def)

subsection \<open>Failing calls\<close>

text \<open>
  Claim C8. \<^verbatim>\<open>ThreeFry32.seed\<close> called with both \<open>seed\<close> and \<open>key\<close> not None raises
  ValueError and leaves the whole state block (counter, key, buffer, buffer_pos) as it was.
\<close>

theorem ThreeFry32_seed_conflict:
  "seed \<noteq> PyNone \<and> key \<noteq> PyNone \<longrightarrow>
     ThreeFry32_seed env seed counter key st = (Inl ValueError, st)"
  by (simp add: ThreeFry32_seed_def)

text \<open>
  Claim C10, at the empty tuple. The claim has every tuple that is not a legacy state
  raise ValueError. The setter reads \<^verbatim>\<open>value[0]\<close> before it looks at the length, so the
  empty tuple raises IndexError.
\<close>

theorem MT19937_state_setter_empty_tuple:
  "MT19937_state_setter (PyTuple []) st = (Inl IndexError, st)"
  by (simp add: MT19937_state_setter_def MT19937_legacy_tuple_def)

text \<open>
  The other tuples behave as the claim says: one that is not empty and not a legacy state
  raises ValueError, and a legacy state of length 3 or 5 is restored as the dict made of
  its elements 1 (the key) and 2 (the position).
\<close>

lemma MT19937_legacy_tuple_other:
  "xs \<noteq> [] \<Longrightarrow> hd xs \<noteq> PyStr ''MT19937'' \<or> length xs \<notin> {3, 5} \<Longrightarrow>
     MT19937_state_setter (PyTuple xs) st = (Inl ValueError, st)"
  by (cases xs) (auto simp: MT19937_state_setter_def MT19937_legacy_tuple_def)

lemma MT19937_seed_try_unchanged:
  "MT19937_seed_try env h seed st = (Inl e, st') \<Longrightarrow> st' = st"
  by (auto simp: MT19937_seed_try_def assign_def split: if_splits sum.splits)

lemma MT19937_seed_array_unchanged:
  "MT19937_seed_array env h seed st = (Inl e, st') \<Longrightarrow> st' = st"
  by (auto simp: MT19937_seed_array_def split: if_splits sum.splits)

lemma MT19937_seed_unchanged:
  assumes "fst (MT19937_seed env h seed st) = Inl e"
  shows "snd (MT19937_seed env h seed st) = st"
proof (cases "MT19937_seed_try env h seed st")
  case (Pair r st1)
  show ?thesis
  proof (cases r)
    case (Inr u)
    with Pair assms show ?thesis by (simp add: MT19937_seed_def)
  next
    case (Inl e1)
    with Pair have st1: "st1 = st" using MT19937_seed_try_unchanged by blast
    show ?thesis
    proof (cases "e1 = TypeError")
      case False
      with Pair Inl st1 show ?thesis by (cases e1) (simp_all add: MT19937_seed_def)
    next
      case True
      let ?s = "if seed = PyNone then seed else squeeze seed"
      from True Pair Inl st1 have eq: "MT19937_seed env h seed st = MT19937_seed_array env h ?s st"
        by (simp add: MT19937_seed_def)
      obtain r2 st2 where r2: "MT19937_seed_array env h ?s st = (r2, st2)" by (cases "MT19937_seed_array env h ?s st")
      with eq assms have "r2 = Inl e" by simp
      with r2 have "st2 = st" using MT19937_seed_array_unchanged by blast
      with eq r2 show ?thesis by simp
    qed
  qed
qed

lemma MT19937_legacy_tuple_restored:
  "length xs = 3 \<or> length xs = 5 \<Longrightarrow> hd xs = PyStr ''MT19937'' \<Longrightarrow>
     MT19937_state_setter (PyTuple xs) st =
       MT19937_state_setter
         (PyDict [(''brng'', PyStr ''MT19937''),
                  (''state'', PyDict [(''key'', xs ! 1), (''pos'', xs ! 2)])]) st"
  by (cases xs) (auto simp: MT19937_state_setter_def MT19937_legacy_tuple_def)

text \<open>
  What \<^verbatim>\<open>MT19937.seed\<close> raises, whatever the environment and the C functions. A scalar
  seed greater than \<open>2^32 - 1\<close> or negative raises ValueError. A seed that
  \<^verbatim>\<open>operator.index\<close> rejects goes to numpy: when the conversion to int64 raises, this
  exception leaves the call, and when it gives an array with an element greater than
  \<open>2^32 - 1\<close> or negative, the call raises ValueError. Every call that raises leaves the
  624-word key and the position as they were.
\<close>

lemma MT19937_seed_range_error:
  "(operator_index (squeeze seed) = Inr n \<and> (n > 2 ^ 32 - 1 \<or> n < 0) \<longrightarrow>
      MT19937_seed env h seed st = (Inl ValueError, st)) \<and>
   (seed \<noteq> PyNone \<and> operator_index (squeeze seed) = Inl TypeError \<and>
    asarray_int64 env (squeeze seed) = Inr (obj, dim0) \<and>
    (\<exists>x\<in>set obj. sint x > 2 ^ 32 - 1 \<or> sint x < 0) \<longrightarrow>
      MT19937_seed env h seed st = (Inl ValueError, st)) \<and>
   (seed \<noteq> PyNone \<and> operator_index (squeeze seed) = Inl TypeError \<and>
    asarray_int64 env (squeeze seed) = Inl e' \<longrightarrow>
      MT19937_seed env h seed st = (Inl e', st)) \<and>
   (fst (MT19937_seed env h seed st) = Inl e \<longrightarrow> snd (MT19937_seed env h seed st) = st)"
proof (intro conjI impI)
  assume a: "operator_index (squeeze seed) = Inr n \<and> (n > 2 ^ 32 - 1 \<or> n < 0)"
  then have "seed \<noteq> PyNone" by auto
  with a have "MT19937_seed_try env h seed st = (Inl ValueError, st)"
    by (auto simp: MT19937_seed_try_def)
  then show "MT19937_seed env h seed st = (Inl ValueError, st)"
    by (simp add: MT19937_seed_def)
next
  assume a: "seed \<noteq> PyNone \<and> operator_index (squeeze seed) = Inl TypeError \<and>
    asarray_int64 env (squeeze seed) = Inr (obj, dim0) \<and>
    (\<exists>x\<in>set obj. sint x > 2 ^ 32 - 1 \<or> sint x < 0)"
  then have t: "MT19937_seed_try env h seed st = (Inl TypeError, st)"
    by (simp add: MT19937_seed_try_def)
  from a have "list_ex (\<lambda>x. sint x > 2 ^ 32 - 1 \<or> sint x < 0) obj"
    by (simp add: list_ex_iff)
  with a have "MT19937_seed_array env h (squeeze seed) st = (Inl ValueError, st)"
    by (simp add: MT19937_seed_array_def)
  with t a show "MT19937_seed env h seed st = (Inl ValueError, st)"
    by (simp add: MT19937_seed_def)
next
  assume a: "seed \<noteq> PyNone \<and> operator_index (squeeze seed) = Inl TypeError \<and>
    asarray_int64 env (squeeze seed) = Inl e'"
  then have t: "MT19937_seed_try env h seed st = (Inl TypeError, st)"
    by (simp add: MT19937_seed_try_def)
  from a have "MT19937_seed_array env h (squeeze seed) st = (Inl e', st)"
    by (simp add: MT19937_seed_array_def)
  with t a show "MT19937_seed env h seed st = (Inl e', st)"
    by (simp add: MT19937_seed_def)
next
  assume "fst (MT19937_seed env h seed st) = Inl e"
  then show "snd (MT19937_seed env h seed st) = st" by (rule MT19937_seed_unchanged)
qed

text \<open>
  Claim C7, at the array seed \<^verbatim>\<open>[5, 2**63]\<close>. The claim, as the doc string of the method,
  has every array seed with an element greater than \<open>2^32 - 1\<close> raise ValueError. The
  element \<open>2^63\<close> does not fit an int64: numpy builds an array of type uint64, the cast
  with \<^verbatim>\<open>casting='safe'\<close> raises TypeError, and the range test that would raise ValueError
  is not reached. The state is left as it was.
\<close>

theorem MT19937_seed_beyond_int64:
  "MT19937_seed zero_env h (PyList [PyInt 5, PyInt (2 ^ 63)]) st = (Inl TypeError, st)"
  by (simp add: MT19937_seed_def MT19937_seed_try_def MT19937_seed_array_def zero_env_def
      numpy_asarray_int64_def)

theorem ThreeFry32_seed_conflict_witness:
  "PyInt 1 \<noteq> PyNone \<and> PyInt 2 \<noteq> PyNone \<and>
   ThreeFry32_seed zero_env (PyInt 1) PyNone (PyInt 2) tf_used = (Inl ValueError, tf_used)"
  using ThreeFry32_seed_conflict[of "PyInt 1" "PyInt 2" zero_env PyNone tf_used] by simp

text \<open>Runs of \<^verbatim>\<open>MT19937.seed\<close> on seeds out of range, a scalar, an array and a list.\<close>

lemma MT19937_seed_runs:
  "MT19937_seed zero_env fill_h (PyInt (2 ^ 32)) mt_zero = (Inl ValueError, mt_zero) \<and>
   MT19937_seed zero_env fill_h (PyInt (- 1)) mt_zero = (Inl ValueError, mt_zero) \<and>
   MT19937_seed zero_env fill_h (PyArray [- 1]) mt_zero = (Inl ValueError, mt_zero) \<and>
   numpy_asarray_int64 (PyList [PyInt 5, PyInt (2 ^ 32)]) = Inr ([5, 2 ^ 32], 2) \<and>
   MT19937_seed zero_env fill_h (PyList [PyInt 5, PyInt (2 ^ 32)]) mt_zero =
     (Inl ValueError, mt_zero) \<and>
   MT19937_seed zero_env fill_h (PyList [PyInt 5, PyInt (- 1)]) mt_zero =
     (Inl ValueError, mt_zero) \<and>
   MT19937_seed zero_env fill_h (PyList []) mt_zero = (Inl TypeError, mt_zero) \<and>
   MT19937_seed zero_env fill_h (PyStr ''seed'') mt_zero = (Inl TypeError, mt_zero) \<and>
   MT19937_seed zero_env fill_h (PyList [PyInt 5, PyInt 6]) mt_zero =
     (Inr (), mt19937_init_by_array fill_h mt_zero [5, 6] 2) \<and>
   MT19937_seed zero_env fill_h (PyInt 5) mt_zero = (Inr (), mt19937_seed fill_h mt_zero 5)"
  by (simp add: MT19937_seed_def MT19937_seed_try_def MT19937_seed_array_def zero_env_def
      numpy_asarray_int64_def flip: numeral_2_eq_2)

subsection \<open>What a statement leaves alone\<close>

lemma seq_Inr:
  "seq p q st = (Inr u, st') \<longleftrightarrow> (\<exists>v st1. p st = (Inr v, st1) \<and> q st1 = (Inr u, st'))"
  by (auto simp: seq_def split: prod.splits sum.splits)

lemma seq_frame:
  assumes "\<And>st r st'. p st = (r, st') \<Longrightarrow> f st' = f st"
    and "\<And>st r st'. q st = (r, st') \<Longrightarrow> f st' = f st"
    and "seq p q st = (r, st')"
  shows "f st' = f st"
proof (cases "p st")
  case (Pair r1 st1)
  with assms(1) have 1: "f st1 = f st" by blast
  show ?thesis
  proof (cases r1)
    case (Inl e)
    with Pair assms(3) 1 show ?thesis by simp
  next
    case (Inr v)
    with Pair assms(3) have "q st1 = (r, st')" by simp
    with assms(2) 1 show ?thesis by metis
  qed
qed

lemma assign_frame:
  assumes "\<And>v st. f (store v st) = f st" and "assign e store st = (r, st')"
  shows "f st' = f st"
  using assms by (cases e) auto

lemma for_range_frame:
  assumes "\<And>i st r st'. body i st = (r, st') \<Longrightarrow> f st' = f st"
  shows "for_range is body st = (r, st') \<Longrightarrow> f st' = f st"
proof (induction "is" arbitrary: st r st')
  case Nil
  then show ?case by simp
next
  case (Cons i "is")
  show ?case
  proof (rule seq_frame[of "body i" f "for_range is body" st r st'])
    show "\<And>st r st'. body i st = (r, st') \<Longrightarrow> f st' = f st" using assms by blast
    show "\<And>st r st'. for_range is body st = (r, st') \<Longrightarrow> f st' = f st" using Cons.IH by blast
    show "seq (body i) (for_range is body) st = (r, st')" using Cons.prems by simp
  qed
qed

lemma assign_Inr:
  "assign e store st = (Inr u, st') \<longleftrightarrow> (\<exists>v. e = Inr v \<and> st' = store v st)"
  by (cases e) auto

subsection \<open>Resetting the buffered output\<close>

lemma zero_four:
  "length xs = 4 \<Longrightarrow> xs[0 := 0, Suc 0 := 0, 2 := 0, 3 := 0] = [0, 0, 0, 0::32 word]"
  by (auto simp: length_Suc_conv numeral_eq_Suc)

lemma ThreeFry32_reset_result:
  "ThreeFry32_reset_state_variables st =
     (Inr (), st\<lparr>tf_buffer_pos := 4, tf_buffer := (tf_buffer st)[0 := 0, Suc 0 := 0, 2 := 0, 3 := 0]\<rparr>)"
  by (simp add: ThreeFry32_reset_state_variables_def THREEFRY_BUFFER_SIZE_def upt_0_4)

lemma ThreeFry32_reset_buffer:
  assumes "ThreeFry32_reset_state_variables st = (r, st')" and "length (tf_buffer st) = 4"
  shows "r = Inr () \<and> tf_buffer_pos st' = 4 \<and> tf_buffer st' = [0, 0, 0, 0]"
  using assms by (auto simp: ThreeFry32_reset_result zero_four)

lemma ThreeFry32_seed_buffer:
  assumes "ThreeFry32_seed env seed counter key st = (Inr u, st')"
    and "length (tf_buffer st) = 4"
  shows "tf_buffer_pos st' = 4 \<and> tf_buffer st' = [0, 0, 0, 0]"
proof -
  let ?A = "if key = PyNone then
               (\<lambda>st. case (if seed = PyNone then entropy_or_fallback env 4
                           else ebind (seed_by_array env seed 2) (\<lambda>ws. Inr (view_uint32 ws))) of
                        Inl e \<Rightarrow> (Inl e, st)
                      | Inr words \<Rightarrow>
                          for_range [0..<4] (\<lambda>i.
                            assign (array_index words i)
                              (\<lambda>w st. st\<lparr>tf_key := (tf_key st)[i := w]\<rparr>)) st)
             else
               (\<lambda>st. case int_to_array key 128 32 of
                        Inl e \<Rightarrow> (Inl e, st)
                      | Inr karr \<Rightarrow>
                          for_range [0..<4] (\<lambda>i.
                            assign (ebind (array_index karr i) (\<lambda>w. as_uint32 (PyInt w)))
                              (\<lambda>w st. st\<lparr>tf_key := (tf_key st)[i := w]\<rparr>)) st)"
  let ?B = "\<lambda>st. case int_to_array (if counter = PyNone then PyInt 0 else counter) 128 32 of
                     Inl e \<Rightarrow> (Inl e, st)
                   | Inr carr \<Rightarrow>
                       for_range [0..<4] (\<lambda>i.
                         assign (ebind (array_index carr i) (\<lambda>w. as_uint32 (PyInt w)))
                           (\<lambda>w st. st\<lparr>tf_ctr := (tf_ctr st)[i := w]\<rparr>)) st"
  have fA: "\<And>st r st'. ?A st = (r, st') \<Longrightarrow> tf_buffer st' = tf_buffer st"
    by (auto split: if_splits sum.splits
        elim!: for_range_frame[rotated] assign_frame[rotated])
  have fB: "\<And>st r st'. ?B st = (r, st') \<Longrightarrow> tf_buffer st' = tf_buffer st"
    by (auto split: if_splits sum.splits
        elim!: for_range_frame[rotated] assign_frame[rotated])
  from assms(1) have "seq ?A (seq ?B ThreeFry32_reset_state_variables) st = (Inr u, st')"
    by (simp add: ThreeFry32_seed_def split: if_splits)
  then obtain v1 st1 v2 st2 where 1: "?A st = (Inr v1, st1)" and 2: "?B st1 = (Inr v2, st2)"
    and 3: "ThreeFry32_reset_state_variables st2 = (Inr u, st')"
    unfolding seq_Inr by blast
  from fA[OF 1] fB[OF 2] assms(2) have "length (tf_buffer st2) = 4" by simp
  with 3 show ?thesis using ThreeFry32_reset_buffer by blast
qed

lemma ThreeFry32_advance_buffer:
  assumes "ThreeFry32_advance delta st = (Inr u, st')" and "length (tf_buffer st) = 4"
  shows "tf_buffer_pos st' = 4 \<and> tf_buffer st' = [0, 0, 0, 0]"
proof -
  from assms(1) obtain delta_a where
    "ThreeFry32_reset_state_variables (threefry32_advance delta_a st) = (Inr u, st')"
    by (auto simp: ThreeFry32_advance_def split: sum.splits)
  moreover have "length (tf_buffer (threefry32_advance delta_a st)) = 4"
    using assms(2) by (simp add: threefry32_advance_def)
  ultimately show ?thesis using ThreeFry32_reset_buffer by blast
qed

lemma Xoshiro_seed_cache:
  assumes "Xoshiro256StarStar_seed env seed st = (Inr u, st')"
  shows "xo_has_uint32 st' = 0 \<and> xo_uinteger st' = 0"
  using assms
  by (auto simp: Xoshiro256StarStar_seed_def seq_Inr
      Xoshiro256StarStar_reset_state_variables_def split: sum.splits)

lemma Xoshiro_setter_cache:
  assumes "Xoshiro256StarStar_state_setter v st = (Inr u, st')"
  shows "ebind (getitem_key v ''has_uint32'') as_int = Inr (xo_has_uint32 st') \<and>
         ebind (getitem_key v ''uinteger'') as_uint32 = Inr (xo_uinteger st')"
  using assms
  by (auto simp: Xoshiro256StarStar_state_setter_def seq_Inr assign_Inr split: if_splits)

lemma ThreeFry32_setter_cache:
  assumes "ThreeFry32_state_setter v st = (Inr u, st')"
  shows "ebind (getitem_key v ''buffer_pos'') as_int = Inr (tf_buffer_pos st')"
  using assms
  by (auto simp: ThreeFry32_state_setter_def seq_Inr assign_Inr split: if_splits)

lemma update_four:
  "[a, b, c, d][2 := x] = [a, b, x, d]"
  "[a, b, c, d][3 := x] = [a, b, c, x]"
  by (simp_all add: numeral_eq_Suc)

lemma four_elements: "length xs = 4 \<Longrightarrow> \<exists>a b c d. xs = [a, b, c, d]"
  by (auto simp: length_Suc_conv numeral_eq_Suc)

lemma ThreeFry32_setter_buffer:
  assumes "ThreeFry32_state_setter v st = (Inr u, st')" and "length (tf_buffer st) = 4"
  shows "map (\<lambda>i. ebind (ebind (getitem_key v ''buffer'') (\<lambda>a. getitem_index a i)) as_uint32)
           [0..<THREEFRY_BUFFER_SIZE] = map Inr (tf_buffer st')"
proof -
  define words :: "threefry32_state stmt" where
    "words = for_range [0..<4] (\<lambda>i.
               seq (assign (ebind (ebind (ebind (getitem_key v ''state'')
                                     (\<lambda>d. getitem_key d ''counter''))
                                     (\<lambda>a. getitem_index a i)) as_uint32)
                      (\<lambda>w st. st\<lparr>tf_ctr := (tf_ctr st)[i := w]\<rparr>))
                   (assign (ebind (ebind (ebind (getitem_key v ''state'')
                                     (\<lambda>d. getitem_key d ''key''))
                                     (\<lambda>a. getitem_index a i)) as_uint32)
                      (\<lambda>w st. st\<lparr>tf_key := (tf_key st)[i := w]\<rparr>)))"
  define cell where
    "cell = (\<lambda>i. ebind (ebind (getitem_key v ''buffer'') (\<lambda>a. getitem_index a i)) as_uint32)"
  define rest :: "threefry32_state stmt" where
    "rest = seq (for_range [0..<THREEFRY_BUFFER_SIZE] (\<lambda>i.
               assign (cell i) (\<lambda>w st. st\<lparr>tf_buffer := (tf_buffer st)[i := w]\<rparr>)))
            (assign (ebind (getitem_key v ''buffer_pos'') as_int)
               (\<lambda>p st. st\<lparr>tf_buffer_pos := p\<rparr>))"
  from assms(1) have "seq words rest st = (Inr u, st')"
    unfolding ThreeFry32_state_setter_def words_def rest_def cell_def
    by (simp split: if_splits del: upt_0_4)
  then obtain w st1 where w: "words st = (Inr w, st1)" and r: "rest st1 = (Inr u, st')"
    unfolding seq_Inr by blast
  have "tf_buffer st1 = tf_buffer st"
    using w unfolding words_def
    by (rule for_range_frame[rotated])
      (auto simp: seq_Inr assign_Inr elim!: seq_frame[rotated 2] assign_frame[rotated])
  with assms(2) obtain a b c d where b: "tf_buffer st1 = [a, b, c, d]"
    using four_elements[of "tf_buffer st1"] by auto
  obtain sc sk sp sb where st1: "st1 = \<lparr>tf_ctr = sc, tf_key = sk, tf_buffer_pos = sp, tf_buffer = sb\<rparr>"
    by (cases st1) auto
  from r b show ?thesis
    unfolding rest_def st1 cell_def[symmetric]
    by (auto simp: THREEFRY_BUFFER_SIZE_def upt_0_4 seq_Inr assign_Inr update_four)
qed

subsection \<open>The state setters on snapshots\<close>

lemma as_uint32_Inr: "as_uint32 (PyInt n) = Inr w \<longleftrightarrow> 0 \<le> n \<and> n < 2 ^ 32 \<and> w = word_of_int n"
  by auto

lemma as_uint64_Inr: "as_uint64 (PyInt n) = Inr w \<longleftrightarrow> 0 \<le> n \<and> n < 2 ^ 64 \<and> w = word_of_int n"
  by auto

lemma as_int_Inr: "as_int (PyInt n) = Inr w \<longleftrightarrow> - (2 ^ 31) \<le> n \<and> n < 2 ^ 31 \<and> w = word_of_int n"
  by auto

lemma ThreeFry32_setter_snapshot:
  assumes "length c = 4" "length k = 4" "length b = 4" "wf_threefry32 st"
  shows "ThreeFry32_state_setter (ThreeFry32_snapshot c k b p) st = (Inr u, st') \<longleftrightarrow>
     (\<forall>x\<in>set c \<union> set k \<union> set b. 0 \<le> x \<and> x < 2 ^ 32) \<and> - (2 ^ 31) \<le> p \<and> p < 2 ^ 31 \<and>
     st' = \<lparr>tf_ctr = map word_of_int c, tf_key = map word_of_int k,
            tf_buffer_pos = word_of_int p, tf_buffer = map word_of_int b\<rparr>"
proof -
  from assms(1) obtain c0 c1 c2 c3 where c: "c = [c0, c1, c2, c3]" using four_elements by blast
  from assms(2) obtain k0 k1 k2 k3 where k: "k = [k0, k1, k2, k3]" using four_elements by blast
  from assms(3) obtain b0 b1 b2 b3 where b: "b = [b0, b1, b2, b3]" using four_elements by blast
  obtain sc sk sp sb where st: "st = \<lparr>tf_ctr = sc, tf_key = sk, tf_buffer_pos = sp, tf_buffer = sb\<rparr>"
    by (cases st) auto
  from assms(4) st obtain x0 x1 x2 x3 where sc: "sc = [x0, x1, x2, x3]"
    using four_elements[of sc] by (auto simp: wf_threefry32_def)
  from assms(4) st obtain y0 y1 y2 y3 where sk: "sk = [y0, y1, y2, y3]"
    using four_elements[of sk] by (auto simp: wf_threefry32_def)
  from assms(4) st obtain z0 z1 z2 z3 where sb: "sb = [z0, z1, z2, z3]"
    using four_elements[of sb] by (auto simp: wf_threefry32_def)
  show ?thesis
    unfolding c k b st sc sk sb
    by (simp add: ThreeFry32_state_setter_def ThreeFry32_snapshot_def THREEFRY_BUFFER_SIZE_def
        upt_0_4 seq_Inr assign_Inr as_uint32_Inr as_int_Inr update_four ex_simps
        del: as_uint32.simps as_int.simps)
      (auto)
qed


lemma Xoshiro_setter_snapshot:
  assumes "length ws = 4" "wf_xoshiro256starstar st"
  shows "Xoshiro256StarStar_state_setter (Xoshiro256StarStar_snapshot ws h v) st = (Inr u, st') \<longleftrightarrow>
     (\<forall>x\<in>set ws. 0 \<le> x \<and> x < 2 ^ 64) \<and> - (2 ^ 31) \<le> h \<and> h < 2 ^ 31 \<and>
     0 \<le> v \<and> v < 2 ^ 32 \<and>
     st' = \<lparr>xo_s = map word_of_int ws, xo_has_uint32 = word_of_int h,
            xo_uinteger = word_of_int v\<rparr>"
proof -
  from assms(1) obtain c0 c1 c2 c3 where c: "ws = [c0, c1, c2, c3]" using four_elements by blast
  obtain ss sh su where st: "st = \<lparr>xo_s = ss, xo_has_uint32 = sh, xo_uinteger = su\<rparr>"
    by (cases st) auto
  from assms(2) st obtain x0 x1 x2 x3 where ss: "ss = [x0, x1, x2, x3]"
    using four_elements[of ss] by (auto simp: wf_xoshiro256starstar_def)
  show ?thesis
    unfolding c st ss
    by (auto simp add: Xoshiro256StarStar_state_setter_def Xoshiro256StarStar_snapshot_def
        seq_Inr assign_Inr as_uint32_Inr as_uint64_Inr as_int_Inr update_four ex_simps
        simp del: as_uint32.simps as_uint64.simps as_int.simps)
qed

lemma map_nth_upt: "length xs = n \<Longrightarrow> map (\<lambda>i. f (xs ! i)) [0..<n] = map f xs"
  by (auto intro: nth_equalityI)

lemma ThreeFry32_state_snapshot:
  "wf_threefry32 h \<Longrightarrow>
     ThreeFry32_state h =
       ThreeFry32_snapshot (map uint (tf_ctr h)) (map uint (tf_key h)) (map uint (tf_buffer h))
         (sint (tf_buffer_pos h))"
  by (simp add: ThreeFry32_state_def ThreeFry32_snapshot_def wf_threefry32_def
      THREEFRY_BUFFER_SIZE_def map_nth_upt)

lemma Xoshiro_state_snapshot:
  "wf_xoshiro256starstar h \<Longrightarrow>
     Xoshiro256StarStar_state h =
       Xoshiro256StarStar_snapshot (map uint (xo_s h)) (sint (xo_has_uint32 h))
         (uint (xo_uinteger h))"
  using four_elements[of "xo_s h"]
  by (auto simp: Xoshiro256StarStar_state_def Xoshiro256StarStar_snapshot_def
      wf_xoshiro256starstar_def)

lemma uint32_range: "0 \<le> uint (w :: 32 word) \<and> uint w < 2 ^ 32"
  using uint_lt2p[of w] by simp

lemma uint64_range: "0 \<le> uint (w :: 64 word) \<and> uint w < 2 ^ 64"
  using uint_lt2p[of w] by simp

lemma sint32_range: "- (2 ^ 31) \<le> sint (w :: 32 word) \<and> sint w < 2 ^ 31"
  using sint_ge[of w] sint_lt[of w] by simp

lemma ThreeFry32_roundtrip:
  assumes "wf_threefry32 h" "wf_threefry32 h'"
  shows "ThreeFry32_state_setter (ThreeFry32_state h) h' = (Inr (), h)"
proof -
  have len: "length (map uint (tf_ctr h)) = 4" "length (map uint (tf_key h)) = 4"
    "length (map uint (tf_buffer h)) = 4"
    using assms(1) by (simp_all add: wf_threefry32_def)
  have "h = \<lparr>tf_ctr = map word_of_int (map uint (tf_ctr h)),
             tf_key = map word_of_int (map uint (tf_key h)),
             tf_buffer_pos = word_of_int (sint (tf_buffer_pos h)),
             tf_buffer = map word_of_int (map uint (tf_buffer h))\<rparr>"
    by (cases h) (simp add: map_idI)
  then show ?thesis
    unfolding ThreeFry32_state_snapshot[OF assms(1)]
      ThreeFry32_setter_snapshot[OF len assms(2)]
    using uint32_range sint32_range by auto
qed

lemma Xoshiro_roundtrip:
  assumes "wf_xoshiro256starstar h" "wf_xoshiro256starstar h'"
  shows "Xoshiro256StarStar_state_setter (Xoshiro256StarStar_state h) h' = (Inr (), h)"
proof -
  have len: "length (map uint (xo_s h)) = 4"
    using assms(1) by (simp add: wf_xoshiro256starstar_def)
  have "h = \<lparr>xo_s = map word_of_int (map uint (xo_s h)),
             xo_has_uint32 = word_of_int (sint (xo_has_uint32 h)),
             xo_uinteger = word_of_int (uint (xo_uinteger h))\<rparr>"
    by (cases h) (simp add: map_idI)
  then show ?thesis
    unfolding Xoshiro_state_snapshot[OF assms(1)]
      Xoshiro_setter_snapshot[OF len assms(2)]
    using uint32_range uint64_range sint32_range by auto
qed

lemma for_range_append:
  "for_range (xs @ ys) body st = seq (for_range xs body) (for_range ys body) st"
proof (induction xs arbitrary: st)
  case Nil
  show ?case by (simp add: seq_def)
next
  case (Cons x xs)
  show ?case
  proof (cases "body x st")
    case (Pair r st1)
    then show ?thesis using Cons.IH[of st1]
      by (cases r) (simp_all add: seq_def)
  qed
qed

lemma mt_key_loop:
  "n \<le> length ks \<Longrightarrow> n \<le> length (mt_key st) \<Longrightarrow>
     for_range [0..<n] (\<lambda>i.
        assign (ebind (getitem_index (PyArray (map uint ks)) i) as_uint32)
          (\<lambda>w st. st\<lparr>mt_key := (mt_key st)[i := w]\<rparr>)) st =
     (Inr (), st\<lparr>mt_key := take n ks @ drop n (mt_key st)\<rparr>)"
proof (induction n)
  case 0
  show ?case by simp
next
  case (Suc n)
  let ?body = "\<lambda>i. assign (ebind (getitem_index (PyArray (map uint ks)) i) as_uint32)
          (\<lambda>w st. st\<lparr>mt_key := (mt_key st)[i := w]\<rparr>)"
  from Suc.prems have n: "n < length ks" "n < length (mt_key st)" by simp_all
  from Suc have IH: "for_range [0..<n] ?body st =
     (Inr (), st\<lparr>mt_key := take n ks @ drop n (mt_key st)\<rparr>)" by simp
  have conv: "ebind (getitem_index (PyArray (map uint ks)) n) as_uint32 = Inr (ks ! n)"
    using n(1) uint32_range[of "ks ! n"] by simp
  have upd: "(take n ks @ drop n (mt_key st))[n := ks ! n] =
     take (Suc n) ks @ drop (Suc n) (mt_key st)"
    using n by (simp add: take_Suc_conv_app_nth list_update_append Cons_nth_drop_Suc[symmetric])
  have "for_range [0..<Suc n] ?body st = seq (for_range [0..<n] ?body) (for_range [n] ?body) st"
    using for_range_append[of "[0..<n]" "[n]" ?body st] by simp
  also have "\<dots> = for_range [n] ?body (st\<lparr>mt_key := take n ks @ drop n (mt_key st)\<rparr>)"
    using IH by simp
  also have "\<dots> = (Inr (), st\<lparr>mt_key := take (Suc n) ks @ drop (Suc n) (mt_key st)\<rparr>)"
    unfolding for_range.simps conv by (simp add: upd)
  finally show ?case .
qed

lemma MT19937_roundtrip:
  assumes "wf_mt19937 h" "wf_mt19937 h'"
  shows "MT19937_state_setter (MT19937_state h) h' = (Inr (), h)"
proof -
  have k: "map (\<lambda>i. uint (mt_key h ! i)) [0..<624] = map uint (mt_key h)"
    using assms(1) by (simp add: wf_mt19937_def map_nth_upt)
  have loop: "for_range [0..<624] (\<lambda>i.
        assign (ebind (getitem_index (PyArray (map uint (mt_key h))) i) as_uint32)
          (\<lambda>w st. st\<lparr>mt_key := (mt_key st)[i := w]\<rparr>)) h' =
     (Inr (), h'\<lparr>mt_key := mt_key h\<rparr>)"
    using mt_key_loop[of 624 "mt_key h" h'] assms by (simp add: wf_mt19937_def)
  have pos: "as_int (PyInt (sint (mt_pos h))) = Inr (mt_pos h)"
    using sint32_range[of "mt_pos h"] by simp
  show ?thesis
    unfolding MT19937_state_setter_def MT19937_state_def k
    by (simp add: MT19937_legacy_tuple_def loop pos del: as_int.simps getitem_index.simps)
qed


subsection \<open>Snapshots\<close>

text \<open>
  Claim C2. For each of the three classes, reading the snapshot of a handle \<open>h\<close> with the
  \<open>state\<close> property and restoring it into a second handle of the same class succeeds and
  leaves the second state block equal to the first, field by field (key and pos; counter,
  key, buffer and buffer_pos; s, has_uint32 and uinteger). The draw functions being
  functions of the state block alone, the second handle then produces the same draws as
  the first, whatever the draw function and the number of draws.
\<close>

theorem snapshot_roundtrip:
  "(wf_mt19937 m \<and> wf_mt19937 m' \<longrightarrow>
      MT19937_state_setter (MT19937_state m) m' = (Inr (), m) \<and>
      draws next_mt n (snd (MT19937_state_setter (MT19937_state m) m')) = draws next_mt n m) \<and>
   (wf_threefry32 t \<and> wf_threefry32 t' \<longrightarrow>
      ThreeFry32_state_setter (ThreeFry32_state t) t' = (Inr (), t) \<and>
      draws next_tf n (snd (ThreeFry32_state_setter (ThreeFry32_state t) t')) = draws next_tf n t) \<and>
   (wf_xoshiro256starstar x \<and> wf_xoshiro256starstar x' \<longrightarrow>
      Xoshiro256StarStar_state_setter (Xoshiro256StarStar_state x) x' = (Inr (), x) \<and>
      draws next_xo n (snd (Xoshiro256StarStar_state_setter (Xoshiro256StarStar_state x) x')) =
        draws next_xo n x)"
  by (simp add: MT19937_roundtrip ThreeFry32_roundtrip Xoshiro_roundtrip)

lemma wf_instances:
  "wf_mt19937 mt_zero" "wf_threefry32 tf_zero" "wf_threefry32 tf_used"
  "wf_xoshiro256starstar xo_zero" "wf_xoshiro256starstar xo_used"
  by (simp_all add: wf_mt19937_def wf_threefry32_def wf_xoshiro256starstar_def
      mt_zero_def tf_zero_def tf_used_def xo_zero_def xo_used_def)

lemma wf_mt_seeded: "wf_mt19937 (mt19937_seed fill_h mt_zero 5)"
  by (simp add: wf_mt19937_def fill_h_def)

theorem snapshot_roundtrip_witness:
  "wf_mt19937 (mt19937_seed fill_h mt_zero 5) \<and> wf_mt19937 mt_zero \<and>
   MT19937_state_setter (MT19937_state (mt19937_seed fill_h mt_zero 5)) mt_zero =
     (Inr (), mt19937_seed fill_h mt_zero 5) \<and>
   wf_threefry32 tf_used \<and> wf_threefry32 tf_zero \<and>
   ThreeFry32_state_setter (ThreeFry32_state tf_used) tf_zero = (Inr (), tf_used) \<and>
   wf_xoshiro256starstar xo_used \<and> wf_xoshiro256starstar xo_zero \<and>
   Xoshiro256StarStar_state_setter (Xoshiro256StarStar_state xo_used) xo_zero = (Inr (), xo_used)"
  using snapshot_roundtrip[where m = "mt19937_seed fill_h mt_zero 5" and m' = mt_zero
      and t = tf_used and t' = tf_zero and x = xo_used and x' = xo_zero] wf_instances wf_mt_seeded
  by blast

text \<open>
  Claim C6, as amended. After a call of \<^verbatim>\<open>ThreeFry32.seed\<close>, \<^verbatim>\<open>ThreeFry32.advance\<close> or
  \<^verbatim>\<open>ThreeFry32.jump\<close> that raises nothing, \<open>buffer_pos\<close> is 4 and the four buffer words are
  zero; after \<^verbatim>\<open>Xoshiro256StarStar.seed\<close> (raising nothing) and after
  \<^verbatim>\<open>Xoshiro256StarStar.jump\<close>, \<open>has_uint32\<close> and \<open>uinteger\<close> are 0. Restoring a snapshot does
  not wipe the cached output: it sets \<open>has_uint32\<close> and \<open>uinteger\<close> (for ThreeFry32,
  \<open>buffer_pos\<close> and each of the four buffer words) to the values the snapshot holds.
\<close>

theorem cache_invalidation:
  "(ThreeFry32_seed env seed counter key t = (Inr u, t') \<and> length (tf_buffer t) = 4 \<longrightarrow>
      tf_buffer_pos t' = 4 \<and> tf_buffer t' = [0, 0, 0, 0]) \<and>
   (ThreeFry32_advance delta t = (Inr u, t') \<and> length (tf_buffer t) = 4 \<longrightarrow>
      tf_buffer_pos t' = 4 \<and> tf_buffer t' = [0, 0, 0, 0]) \<and>
   (ThreeFry32_jump iter t = (Inr u, t') \<and> length (tf_buffer t) = 4 \<longrightarrow>
      tf_buffer_pos t' = 4 \<and> tf_buffer t' = [0, 0, 0, 0]) \<and>
   (Xoshiro256StarStar_seed env seed x = (Inr u, x') \<longrightarrow>
      xo_has_uint32 x' = 0 \<and> xo_uinteger x' = 0) \<and>
   (fst (Xoshiro256StarStar_jump poly iter x) = Inr () \<and>
    xo_has_uint32 (snd (Xoshiro256StarStar_jump poly iter x)) = 0 \<and>
    xo_uinteger (snd (Xoshiro256StarStar_jump poly iter x)) = 0) \<and>
   (Xoshiro256StarStar_state_setter v x = (Inr u, x') \<longrightarrow>
      ebind (getitem_key v ''has_uint32'') as_int = Inr (xo_has_uint32 x') \<and>
      ebind (getitem_key v ''uinteger'') as_uint32 = Inr (xo_uinteger x')) \<and>
   (ThreeFry32_state_setter v t = (Inr u, t') \<longrightarrow>
      ebind (getitem_key v ''buffer_pos'') as_int = Inr (tf_buffer_pos t') \<and>
      (length (tf_buffer t) = 4 \<longrightarrow>
         map (\<lambda>i. ebind (ebind (getitem_key v ''buffer'') (\<lambda>a. getitem_index a i)) as_uint32)
           [0..<THREEFRY_BUFFER_SIZE] = map Inr (tf_buffer t')))"
proof (intro conjI impI)
  assume "ThreeFry32_seed env seed counter key t = (Inr u, t') \<and> length (tf_buffer t) = 4"
  then show "tf_buffer_pos t' = 4" "tf_buffer t' = [0, 0, 0, 0]"
    using ThreeFry32_seed_buffer by blast+
next
  assume "ThreeFry32_advance delta t = (Inr u, t') \<and> length (tf_buffer t) = 4"
  then show "tf_buffer_pos t' = 4" "tf_buffer t' = [0, 0, 0, 0]"
    using ThreeFry32_advance_buffer by blast+
next
  assume "ThreeFry32_jump iter t = (Inr u, t') \<and> length (tf_buffer t) = 4"
  then show "tf_buffer_pos t' = 4" "tf_buffer t' = [0, 0, 0, 0]"
    unfolding ThreeFry32_jump_def using ThreeFry32_advance_buffer by blast+
next
  assume "Xoshiro256StarStar_seed env seed x = (Inr u, x')"
  then show "xo_has_uint32 x' = 0" "xo_uinteger x' = 0"
    using Xoshiro_seed_cache by blast+
next
  show "fst (Xoshiro256StarStar_jump poly iter x) = Inr ()"
    "xo_has_uint32 (snd (Xoshiro256StarStar_jump poly iter x)) = 0"
    "xo_uinteger (snd (Xoshiro256StarStar_jump poly iter x)) = 0"
    by (simp_all add: Xoshiro256StarStar_jump_def Xoshiro256StarStar_reset_state_variables_def)
next
  assume "Xoshiro256StarStar_state_setter v x = (Inr u, x')"
  then show "ebind (getitem_key v ''has_uint32'') as_int = Inr (xo_has_uint32 x')"
    "ebind (getitem_key v ''uinteger'') as_uint32 = Inr (xo_uinteger x')"
    using Xoshiro_setter_cache by blast+
next
  assume "ThreeFry32_state_setter v t = (Inr u, t')"
  then show "ebind (getitem_key v ''buffer_pos'') as_int = Inr (tf_buffer_pos t')"
    using ThreeFry32_setter_cache by blast
next
  assume "ThreeFry32_state_setter v t = (Inr u, t')" and "length (tf_buffer t) = 4"
  then show "map (\<lambda>i. ebind (ebind (getitem_key v ''buffer'') (\<lambda>a. getitem_index a i)) as_uint32)
      [0..<THREEFRY_BUFFER_SIZE] = map Inr (tf_buffer t')"
    by (rule ThreeFry32_setter_buffer)
qed

lemma replicate_few:
  "replicate 2 x = [x, x]" "replicate 4 x = [x, x, x, x]"
  by (simp_all add: numeral_eq_Suc)

lemma tf_seed_run:
  "ThreeFry32_seed zero_env (PyInt 1) PyNone PyNone tf_used = (Inr (), tf_zero)"
  by (simp add: ThreeFry32_seed_def zero_env_def tf_used_def tf_zero_def upt_0_4 array_index_def
      le_words_def ThreeFry32_reset_result update_four replicate_few)

lemma tf_advance_run:
  "ThreeFry32_advance (PyInt 1) tf_used = (Inr (), tf_zero\<lparr>tf_ctr := [8, 0, 0, 0], tf_key := [1, 2, 3, 4]\<rparr>)"
  by (simp add: ThreeFry32_advance_def threefry32_advance_def tf_used_def tf_zero_def upt_0_4
      le_words_def ThreeFry32_reset_result update_four)

lemma tf_jump_run:
  "ThreeFry32_jump 1 tf_used = (Inr (), tf_zero\<lparr>tf_ctr := [7, 0, 1, 0], tf_key := [1, 2, 3, 4]\<rparr>)"
  by (simp add: ThreeFry32_jump_def ThreeFry32_advance_def threefry32_advance_def tf_used_def
      tf_zero_def upt_0_4 le_words_def ThreeFry32_reset_result update_four)

lemma xo_seed_run:
  "Xoshiro256StarStar_seed zero_env (PyInt 1) xo_used = (Inr (), xo_zero)"
  by (simp add: Xoshiro256StarStar_seed_def zero_env_def xo_used_def xo_zero_def array_index_def
      Xoshiro256StarStar_reset_state_variables_def update_four replicate_few)


theorem cache_invalidation_witness:
  "ThreeFry32_seed zero_env (PyInt 1) PyNone PyNone tf_used = (Inr (), tf_zero) \<and>
   length (tf_buffer tf_used) = 4 \<and>
   tf_buffer_pos tf_zero = 4 \<and> tf_buffer tf_zero = [0, 0, 0, 0] \<and>
   ThreeFry32_advance (PyInt 1) tf_used =
     (Inr (), tf_zero\<lparr>tf_ctr := [8, 0, 0, 0], tf_key := [1, 2, 3, 4]\<rparr>) \<and>
   ThreeFry32_jump 1 tf_used =
     (Inr (), tf_zero\<lparr>tf_ctr := [7, 0, 1, 0], tf_key := [1, 2, 3, 4]\<rparr>) \<and>
   Xoshiro256StarStar_seed zero_env (PyInt 1) xo_used = (Inr (), xo_zero) \<and>
   xo_has_uint32 xo_zero = 0 \<and> xo_uinteger xo_zero = 0 \<and>
   Xoshiro256StarStar_state_setter (Xoshiro256StarStar_state xo_used) xo_zero =
     (Inr (), xo_used) \<and>
   ebind (getitem_key (Xoshiro256StarStar_state xo_used) ''has_uint32'') as_int =
     Inr (xo_has_uint32 xo_used) \<and>
   ThreeFry32_state_setter (ThreeFry32_state tf_used) tf_zero = (Inr (), tf_used) \<and>
   ebind (getitem_key (ThreeFry32_state tf_used) ''buffer_pos'') as_int =
     Inr (tf_buffer_pos tf_used) \<and>
   length (tf_buffer tf_zero) = 4 \<and>
   map (\<lambda>i. ebind (ebind (getitem_key (ThreeFry32_state tf_used) ''buffer'')
                  (\<lambda>a. getitem_index a i)) as_uint32)
     [0..<THREEFRY_BUFFER_SIZE] = map Inr (tf_buffer tf_used) \<and>
   tf_buffer_pos tf_used = 2 \<and> tf_buffer tf_used = [11, 12, 13, 14]"
proof -
  have len: "length (tf_buffer tf_used) = 4" by (simp add: tf_used_def)
  have len0: "length (tf_buffer tf_zero) = 4" by (simp add: tf_zero_def)
  have used: "tf_buffer_pos tf_used = 2 \<and> tf_buffer tf_used = [11, 12, 13, 14]"
    by (simp add: tf_used_def)
  have a: "tf_buffer_pos tf_zero = 4 \<and> tf_buffer tf_zero = [0, 0, 0, 0]"
    using cache_invalidation[where env = zero_env and seed = "PyInt 1" and counter = PyNone
        and key = PyNone and t = tf_used and u = "()" and t' = tf_zero]
      tf_seed_run len by blast
  have b: "xo_has_uint32 xo_zero = 0 \<and> xo_uinteger xo_zero = 0"
    using cache_invalidation[where env = zero_env and seed = "PyInt 1" and u = "()"
        and x = xo_used and x' = xo_zero]
      xo_seed_run by blast
  have xr: "Xoshiro256StarStar_state_setter (Xoshiro256StarStar_state xo_used) xo_zero =
     (Inr (), xo_used)"
    by (simp add: Xoshiro_roundtrip wf_instances)
  have c: "ebind (getitem_key (Xoshiro256StarStar_state xo_used) ''has_uint32'') as_int =
     Inr (xo_has_uint32 xo_used)"
    using cache_invalidation[where u = "()" and x = xo_zero and x' = xo_used
        and v = "Xoshiro256StarStar_state xo_used"] xr by blast
  have tr: "ThreeFry32_state_setter (ThreeFry32_state tf_used) tf_zero = (Inr (), tf_used)"
    by (simp add: ThreeFry32_roundtrip wf_instances)
  have d: "ebind (getitem_key (ThreeFry32_state tf_used) ''buffer_pos'') as_int =
     Inr (tf_buffer_pos tf_used)"
    using cache_invalidation[where u = "()" and t = tf_zero and t' = tf_used
        and v = "ThreeFry32_state tf_used"] tr by blast
  have e: "map (\<lambda>i. ebind (ebind (getitem_key (ThreeFry32_state tf_used) ''buffer'')
                  (\<lambda>a. getitem_index a i)) as_uint32)
     [0..<THREEFRY_BUFFER_SIZE] = map Inr (tf_buffer tf_used)"
    using cache_invalidation[where u = "()" and t = tf_zero and t' = tf_used
        and v = "ThreeFry32_state tf_used"] tr len0 by blast
  show ?thesis
    using tf_seed_run len a tf_advance_run tf_jump_run xo_seed_run b xr c tr d len0 e used
    by blast
qed

text \<open>
  The claim C6 as stated fails: restoring the snapshot of a Xoshiro256StarStar state that
  holds a cached half-word (\<open>has_uint32 = 1\<close>, \<open>uinteger = 7\<close>) leaves the cache filled.
\<close>

theorem restore_keeps_cache:
  "fst (Xoshiro256StarStar_state_setter (Xoshiro256StarStar_state xo_used) xo_zero) = Inr () \<and>
   xo_has_uint32 (snd (Xoshiro256StarStar_state_setter (Xoshiro256StarStar_state xo_used) xo_zero))
     = 1 \<and>
   xo_uinteger (snd (Xoshiro256StarStar_state_setter (Xoshiro256StarStar_state xo_used) xo_zero))
     = 7"
  by (simp add: Xoshiro_roundtrip wf_instances) (simp add: xo_used_def)

text \<open>
  Claim C9, as amended. Restoring a snapshot that is not a dict raises TypeError, and
  restoring a dict whose \<open>brng\<close> tag differs from the name of the class raises ValueError;
  both leave the state block as it was. The fields are checked by the conversion to their
  C types only: a snapshot of the right shape is accepted exactly when every word fits its
  width and the integer fields fit a C \<^verbatim>\<open>int\<close>, and then the fields are stored as they
  are, \<open>buffer_pos\<close> included, whether it lies in \<open>0..4\<close> or not.
\<close>

theorem state_setter_rejects:
  "(\<not> is_dict v \<longrightarrow>
      ThreeFry32_state_setter v t = (Inl TypeError, t) \<and>
      Xoshiro256StarStar_state_setter v x = (Inl TypeError, x)) \<and>
   (is_dict v \<and> dict_get v ''brng'' (PyStr []) \<noteq> PyStr ''ThreeFry32'' \<longrightarrow>
      ThreeFry32_state_setter v t = (Inl ValueError, t)) \<and>
   (is_dict v \<and> dict_get v ''brng'' (PyStr []) \<noteq> PyStr ''Xoshiro256StarStar'' \<longrightarrow>
      Xoshiro256StarStar_state_setter v x = (Inl ValueError, x)) \<and>
   (wf_threefry32 t \<and> length c = 4 \<and> length k = 4 \<and> length b = 4 \<longrightarrow>
      (ThreeFry32_state_setter (ThreeFry32_snapshot c k b p) t = (Inr (), t') \<longleftrightarrow>
         (\<forall>w\<in>set c \<union> set k \<union> set b. 0 \<le> w \<and> w < 2 ^ 32) \<and>
         - (2 ^ 31) \<le> p \<and> p < 2 ^ 31 \<and>
         t' = \<lparr>tf_ctr = map word_of_int c, tf_key = map word_of_int k,
               tf_buffer_pos = word_of_int p, tf_buffer = map word_of_int b\<rparr>)) \<and>
   (wf_xoshiro256starstar x \<and> length ws = 4 \<longrightarrow>
      (Xoshiro256StarStar_state_setter (Xoshiro256StarStar_snapshot ws h u) x = (Inr (), x') \<longleftrightarrow>
         (\<forall>w\<in>set ws. 0 \<le> w \<and> w < 2 ^ 64) \<and> - (2 ^ 31) \<le> h \<and> h < 2 ^ 31 \<and>
         0 \<le> u \<and> u < 2 ^ 32 \<and>
         x' = \<lparr>xo_s = map word_of_int ws, xo_has_uint32 = word_of_int h,
               xo_uinteger = word_of_int u\<rparr>))"
proof (intro conjI impI)
  assume "\<not> is_dict v"
  then show "ThreeFry32_state_setter v t = (Inl TypeError, t)"
    "Xoshiro256StarStar_state_setter v x = (Inl TypeError, x)"
    by (simp_all add: ThreeFry32_state_setter_def Xoshiro256StarStar_state_setter_def)
next
  assume "is_dict v \<and> dict_get v ''brng'' (PyStr []) \<noteq> PyStr ''ThreeFry32''"
  then show "ThreeFry32_state_setter v t = (Inl ValueError, t)"
    by (simp add: ThreeFry32_state_setter_def)
next
  assume "is_dict v \<and> dict_get v ''brng'' (PyStr []) \<noteq> PyStr ''Xoshiro256StarStar''"
  then show "Xoshiro256StarStar_state_setter v x = (Inl ValueError, x)"
    by (simp add: Xoshiro256StarStar_state_setter_def)
next
  assume "wf_threefry32 t \<and> length c = 4 \<and> length k = 4 \<and> length b = 4"
  then show "ThreeFry32_state_setter (ThreeFry32_snapshot c k b p) t = (Inr (), t') \<longleftrightarrow>
         (\<forall>w\<in>set c \<union> set k \<union> set b. 0 \<le> w \<and> w < 2 ^ 32) \<and>
         - (2 ^ 31) \<le> p \<and> p < 2 ^ 31 \<and>
         t' = \<lparr>tf_ctr = map word_of_int c, tf_key = map word_of_int k,
               tf_buffer_pos = word_of_int p, tf_buffer = map word_of_int b\<rparr>"
    using ThreeFry32_setter_snapshot[of c k b t p "()" t'] by blast
next
  assume "wf_xoshiro256starstar x \<and> length ws = 4"
  then show "Xoshiro256StarStar_state_setter (Xoshiro256StarStar_snapshot ws h u) x = (Inr (), x') \<longleftrightarrow>
         (\<forall>w\<in>set ws. 0 \<le> w \<and> w < 2 ^ 64) \<and> - (2 ^ 31) \<le> h \<and> h < 2 ^ 31 \<and>
         0 \<le> u \<and> u < 2 ^ 32 \<and>
         x' = \<lparr>xo_s = map word_of_int ws, xo_has_uint32 = word_of_int h,
               xo_uinteger = word_of_int u\<rparr>"
    using Xoshiro_setter_snapshot[of ws x h u "()" x'] by blast
qed

theorem state_setter_rejects_witness:
  "\<not> is_dict (PyList [PyInt 1]) \<and>
   ThreeFry32_state_setter (PyList [PyInt 1]) tf_used = (Inl TypeError, tf_used) \<and>
   Xoshiro256StarStar_state_setter (PyList [PyInt 1]) xo_used = (Inl TypeError, xo_used) \<and>
   is_dict (Xoshiro256StarStar_state xo_used) \<and>
   dict_get (Xoshiro256StarStar_state xo_used) ''brng'' (PyStr []) \<noteq> PyStr ''ThreeFry32'' \<and>
   ThreeFry32_state_setter (Xoshiro256StarStar_state xo_used) tf_used = (Inl ValueError, tf_used) \<and>
   is_dict (ThreeFry32_state tf_used) \<and>
   dict_get (ThreeFry32_state tf_used) ''brng'' (PyStr []) \<noteq> PyStr ''Xoshiro256StarStar'' \<and>
   Xoshiro256StarStar_state_setter (ThreeFry32_state tf_used) xo_used = (Inl ValueError, xo_used) \<and>
   wf_threefry32 tf_used \<and>
   ThreeFry32_state_setter (ThreeFry32_snapshot [1, 0, 0, 0] [0, 0, 0, 0] [5, 6, 7, 8] 3) tf_used =
     (Inr (), \<lparr>tf_ctr = map word_of_int [1, 0, 0, 0], tf_key = map word_of_int [0, 0, 0, 0],
              tf_buffer_pos = word_of_int 3, tf_buffer = map word_of_int [5, 6, 7, 8]\<rparr>) \<and>
   ThreeFry32_state_setter (ThreeFry32_snapshot [1, 0, 0, 0] [0, 2 ^ 32, 0, 0] [5, 6, 7, 8] 3)
       tf_used \<noteq> (Inr (), tf_used) \<and>
   wf_xoshiro256starstar xo_used \<and>
   Xoshiro256StarStar_state_setter (Xoshiro256StarStar_snapshot [1, 2, 3, 2 ^ 64] 0 0) xo_used
     \<noteq> (Inr (), xo_used)"
proof -
  let ?l = "PyList [PyInt 1]"
  have n: "\<not> is_dict ?l" by simp
  have r1: "ThreeFry32_state_setter ?l tf_used = (Inl TypeError, tf_used)"
    "Xoshiro256StarStar_state_setter ?l xo_used = (Inl TypeError, xo_used)"
    using state_setter_rejects[where v = ?l and t = tf_used and x = xo_used] n by blast+
  have d1: "is_dict (Xoshiro256StarStar_state xo_used)"
    "dict_get (Xoshiro256StarStar_state xo_used) ''brng'' (PyStr []) \<noteq> PyStr ''ThreeFry32''"
    by (simp_all add: Xoshiro256StarStar_state_def)
  have r2: "ThreeFry32_state_setter (Xoshiro256StarStar_state xo_used) tf_used =
      (Inl ValueError, tf_used)"
    using state_setter_rejects[where v = "Xoshiro256StarStar_state xo_used" and t = tf_used] d1 by blast
  have d2: "is_dict (ThreeFry32_state tf_used)"
    "dict_get (ThreeFry32_state tf_used) ''brng'' (PyStr []) \<noteq> PyStr ''Xoshiro256StarStar''"
    by (simp_all add: ThreeFry32_state_def)
  have r3: "Xoshiro256StarStar_state_setter (ThreeFry32_state tf_used) xo_used =
      (Inl ValueError, xo_used)"
    using state_setter_rejects[where v = "ThreeFry32_state tf_used" and x = xo_used] d2 by blast
  have r4: "ThreeFry32_state_setter (ThreeFry32_snapshot [1, 0, 0, 0] [0, 0, 0, 0] [5, 6, 7, 8] 3)
       tf_used =
     (Inr (), \<lparr>tf_ctr = map word_of_int [1, 0, 0, 0], tf_key = map word_of_int [0, 0, 0, 0],
              tf_buffer_pos = word_of_int 3, tf_buffer = map word_of_int [5, 6, 7, 8]\<rparr>)"
    using state_setter_rejects[where t = tf_used and c = "[1, 0, 0, 0]" and k = "[0, 0, 0, 0]"
        and b = "[5, 6, 7, 8]" and p = 3]
      wf_instances(3) by simp
  have r5: "ThreeFry32_state_setter (ThreeFry32_snapshot [1, 0, 0, 0] [0, 2 ^ 32, 0, 0]
       [5, 6, 7, 8] 3) tf_used \<noteq> (Inr (), tf_used)"
    using state_setter_rejects[where t = tf_used and c = "[1, 0, 0, 0]" and k = "[0, 2 ^ 32, 0, 0]"
        and b = "[5, 6, 7, 8]" and p = 3 and t' = tf_used] wf_instances(3) by simp
  have r6: "Xoshiro256StarStar_state_setter (Xoshiro256StarStar_snapshot [1, 2, 3, 2 ^ 64] 0 0)
      xo_used \<noteq> (Inr (), xo_used)"
    using state_setter_rejects[where x = xo_used and ws = "[1, 2, 3, 2 ^ 64]" and h = 0 and u = 0
        and x' = xo_used]
      wf_instances(5) by simp
  show ?thesis using n r1 d1 r2 d2 r3 r4 r5 r6 wf_instances(3,5) by blast
qed

text \<open>
  The claim C9 as stated fails: a snapshot with \<open>buffer_pos = 7\<close> is accepted and stored.
\<close>

theorem state_setter_accepts_buffer_pos_7:
  "ThreeFry32_state_setter (ThreeFry32_snapshot [0, 0, 0, 0] [0, 0, 0, 0] [0, 0, 0, 0] 7) tf_zero
     = (Inr (), tf_zero\<lparr>tf_buffer_pos := 7\<rparr>)"
  using ThreeFry32_setter_snapshot[of "[0, 0, 0, 0]" "[0, 0, 0, 0]" "[0, 0, 0, 0]" tf_zero 7 "()"
      "tf_zero\<lparr>tf_buffer_pos := 7\<rparr>"] wf_instances(2)
  by (simp add: tf_zero_def)

subsection \<open>Jumps\<close>

lemma xo_jump_reset_commute:
  "xoshiro256starstar_jump poly (st\<lparr>xo_has_uint32 := a, xo_uinteger := b\<rparr>) =
     (xoshiro256starstar_jump poly st)\<lparr>xo_has_uint32 := a, xo_uinteger := b\<rparr>"
  by (simp add: xoshiro256starstar_jump_def)

lemma xo_jump_once:
  "snd (Xoshiro256StarStar_jump poly 1 st) =
     (xoshiro256starstar_jump poly st)\<lparr>xo_has_uint32 := 0, xo_uinteger := 0\<rparr>"
  by (simp add: Xoshiro256StarStar_jump_def Xoshiro256StarStar_reset_state_variables_def)

lemma xo_jump_times:
  "Xoshiro256StarStar_jump_times poly (Suc n) st =
     ((xoshiro256starstar_jump poly ^^ Suc n) st)\<lparr>xo_has_uint32 := 0, xo_uinteger := 0\<rparr>"
proof (induction n)
  case 0
  show ?case by (simp add: Xoshiro256StarStar_jump_times_def xo_jump_once)
next
  case (Suc n)
  have "Xoshiro256StarStar_jump_times poly (Suc (Suc n)) st =
      snd (Xoshiro256StarStar_jump poly 1 (Xoshiro256StarStar_jump_times poly (Suc n) st))"
    by (simp add: Xoshiro256StarStar_jump_times_def)
  also have "\<dots> = (xoshiro256starstar_jump poly
      (((xoshiro256starstar_jump poly ^^ Suc n) st)\<lparr>xo_has_uint32 := 0, xo_uinteger := 0\<rparr>))
        \<lparr>xo_has_uint32 := 0, xo_uinteger := 0\<rparr>"
    unfolding Suc.IH xo_jump_once ..
  also have "\<dots> = ((xoshiro256starstar_jump poly ^^ Suc (Suc n)) st)
        \<lparr>xo_has_uint32 := 0, xo_uinteger := 0\<rparr>"
    unfolding xo_jump_reset_commute by simp
  finally show ?case .
qed

lemma xo_jump_count:
  assumes "1 \<le> sint iter"
  shows "snd (Xoshiro256StarStar_jump poly iter st) =
           Xoshiro256StarStar_jump_times poly (nat (sint iter)) st"
proof -
  from assms obtain n where n: "nat (sint iter) = Suc n"
    by (cases "nat (sint iter)") auto
  show ?thesis
    unfolding n xo_jump_times
    by (simp add: Xoshiro256StarStar_jump_def Xoshiro256StarStar_reset_state_variables_def n)
qed

lemma mt_jump_times: "MT19937_jump_times h n st = (mt19937_jump h ^^ n) st"
  by (induction n) (simp_all add: MT19937_jump_times_def MT19937_jump_def)

subsection \<open>The counter as a 128-bit integer\<close>

lemma le_value_append: "le_value (xs @ [x]) = le_value xs + 2 ^ (32 * length xs) * x"
  by (induction xs) (simp_all add: algebra_simps power_add)

lemma le_value_le_words: "0 \<le> v \<Longrightarrow> le_value (le_words 32 n v) = v mod 2 ^ (32 * n)"
proof (induction n)
  case 0
  show ?case by (simp add: le_words_def)
next
  case (Suc n)
  have w: "le_words 32 (Suc n) v = le_words 32 n v @ [(v div 2 ^ (32 * n)) mod 2 ^ 32]"
    by (simp add: le_words_def)
  have len: "length (le_words 32 n v) = n" by (simp add: le_words_def)
  have "v mod 2 ^ (32 * Suc n) = v mod (2 ^ (32 * n) * 2 ^ 32)"
    by (simp add: power_add mult.commute)
  also have "\<dots> = 2 ^ (32 * n) * (v div 2 ^ (32 * n) mod 2 ^ 32) + v mod 2 ^ (32 * n)"
    by (simp add: zmod_zmult2_eq)
  finally show ?case
    unfolding w le_value_append len using Suc by simp
qed

lemma le_words_nth_range:
  "x \<in> set (le_words 32 n v) \<Longrightarrow> 0 \<le> x \<and> x < 2 ^ 32"
  by (auto simp: le_words_def)

lemma uint_word_of_int_words:
  "map uint (map word_of_int (le_words 32 n v) :: 32 word list) = le_words 32 n v"
proof -
  have "\<And>x. x \<in> set (le_words 32 n v) \<Longrightarrow> uint (word_of_int x :: 32 word) = x"
    using le_words_nth_range by (simp add: uint_word_of_int take_bit_eq_mod)
  then show ?thesis by (simp add: map_idI)
qed

lemma ctr_value:
  assumes "0 \<le> v"
  shows "le_value (map uint (map word_of_int (le_words 32 4 v) :: 32 word list)) = v mod 2 ^ 128"
  unfolding uint_word_of_int_words using le_value_le_words[OF assms, of 4] by simp

lemma zeroed_idem: "zeroed (zeroed xs) = zeroed xs"
  apply (cases xs, simp add: zeroed_def)
  apply (rename_tac a as, case_tac as, simp add: zeroed_def)
  apply (rename_tac b bs, case_tac bs, simp add: zeroed_def numeral_eq_Suc)
  apply (rename_tac c cs, case_tac cs, simp add: zeroed_def numeral_eq_Suc)
  apply (simp add: zeroed_def numeral_eq_Suc)
  done

lemma le_value_nonneg: "(\<And>x. x \<in> set xs \<Longrightarrow> 0 \<le> x) \<Longrightarrow> 0 \<le> le_value xs"
  by (induction xs) simp_all

lemma ctr_nonneg: "0 \<le> le_value (map uint (ws :: 32 word list))"
  by (rule le_value_nonneg) auto

lemma advance_int:
  assumes "0 \<le> d" "d < 2 ^ 128"
  shows "ThreeFry32_advance (PyInt d) st =
     (Inr (), st\<lparr>tf_ctr := map word_of_int
                   (le_words 32 4 ((le_value (map uint (tf_ctr st)) + d) mod 2 ^ 128)),
                 tf_buffer_pos := 4, tf_buffer := zeroed (tf_buffer st)\<rparr>)"
proof -
  have "le_value (le_words 32 4 d) = d"
    using le_value_le_words[OF assms(1), of 4] assms by simp
  then show ?thesis using assms
    by (simp add: ThreeFry32_advance_def threefry32_advance_def ThreeFry32_reset_result zeroed_def)
qed

lemma advance_times:
  assumes "0 \<le> d" "d < 2 ^ 128"
  shows "ThreeFry32_advance_times (PyInt d) (Suc n) st =
     st\<lparr>tf_ctr := map word_of_int
           (le_words 32 4 ((le_value (map uint (tf_ctr st)) + (1 + int n) * d) mod 2 ^ 128)),
        tf_buffer_pos := 4, tf_buffer := zeroed (tf_buffer st)\<rparr>"
proof (induction n)
  case 0
  show ?case by (simp add: ThreeFry32_advance_times_def advance_int[OF assms])
next
  case (Suc n)
  let ?c = "le_value (map uint (tf_ctr st))"
  let ?v = "(?c + (1 + int n) * d) mod 2 ^ 128"
  let ?S = "st\<lparr>tf_ctr := map word_of_int (le_words 32 4 ?v),
        tf_buffer_pos := 4, tf_buffer := zeroed (tf_buffer st)\<rparr>"
  have v: "0 \<le> ?v" by simp
  have cv: "le_value (map uint (tf_ctr ?S)) = ?v"
    using ctr_value[OF v] by simp
  have "ThreeFry32_advance_times (PyInt d) (Suc (Suc n)) st =
      snd (ThreeFry32_advance (PyInt d) (ThreeFry32_advance_times (PyInt d) (Suc n) st))"
    by (simp add: ThreeFry32_advance_times_def)
  also have "\<dots> = snd (ThreeFry32_advance (PyInt d) ?S)"
    unfolding Suc.IH ..
  also have "\<dots> = ?S\<lparr>tf_ctr := map word_of_int (le_words 32 4 ((?v + d) mod 2 ^ 128)),
        tf_buffer_pos := 4, tf_buffer := zeroed (tf_buffer ?S)\<rparr>"
    unfolding advance_int[OF assms] cv by simp
  also have "\<dots> = st\<lparr>tf_ctr := map word_of_int (le_words 32 4 ((?v + d) mod 2 ^ 128)),
        tf_buffer_pos := 4, tf_buffer := zeroed (tf_buffer st)\<rparr>"
    by (simp add: zeroed_idem)
  also have "(?v + d) mod 2 ^ 128 = (?c + (1 + int (Suc n)) * d) mod 2 ^ 128"
  proof -
    have "(?v + d) mod 2 ^ 128 = ((?c + (1 + int n) * d) + d) mod 2 ^ 128"
      by (rule mod_add_left_eq)
    also have "(?c + (1 + int n) * d) + d = ?c + (1 + int (Suc n)) * d"
      by (simp add: algebra_simps)
    finally show ?thesis .
  qed
  finally show ?case .
qed

lemma sint64_bound: "sint (w :: 64 word) < 2 ^ 63"
  using sint_lt[of w] by simp

lemma jump_advance_times:
  assumes "1 \<le> sint iter"
  shows "ThreeFry32_jump iter st =
           (Inr (), ThreeFry32_advance_times (PyInt (2 ^ 64)) (nat (sint iter)) st)"
proof -
  from assms obtain n where n: "nat (sint iter) = Suc n"
    by (cases "nat (sint iter)") auto
  then have k: "sint iter = 1 + int n" using assms by linarith
  have r: "0 \<le> sint iter * 2 ^ 64" "sint iter * 2 ^ 64 < 2 ^ 128"
    using assms sint64_bound[of iter] by simp_all
  have "ThreeFry32_jump iter st = ThreeFry32_advance (PyInt (sint iter * 2 ^ 64)) st"
    by (simp add: ThreeFry32_jump_def)
  also have "\<dots> = (Inr (), ThreeFry32_advance_times (PyInt (2 ^ 64)) (Suc n) st)"
    unfolding advance_int[OF r] by (simp add: advance_times k)
  finally show ?thesis unfolding n .
qed

text \<open>
  Claim C3, as amended. For Xoshiro256StarStar and a count \<open>k \<ge> 1\<close>, \<^verbatim>\<open>jump(k)\<close> leaves the
  state that \<open>k\<close> calls of \<^verbatim>\<open>jump(1)\<close> leave. \<^verbatim>\<open>MT19937.jump\<close> takes no count: a call
  with an argument raises TypeError and leaves the state as it was, a call without one
  applies the C jump once, so \<open>n\<close> calls apply it \<open>n\<close> times. For ThreeFry32, \<^verbatim>\<open>jump(k)\<close> is
  \<^verbatim>\<open>advance(k * 2**64)\<close>, and for \<open>k \<ge> 1\<close> it raises nothing and leaves the state that \<open>k\<close>
  calls of \<^verbatim>\<open>advance(2**64)\<close> leave.
\<close>

theorem jump_algebra:
  "(1 \<le> sint iter \<longrightarrow>
      snd (Xoshiro256StarStar_jump poly iter x) =
        Xoshiro256StarStar_jump_times poly (nat (sint iter)) x) \<and>
   (args \<noteq> [] \<longrightarrow> MT19937_jump h args m = (Inl TypeError, m)) \<and>
   MT19937_jump h [] m = (Inr (), mt19937_jump h m) \<and>
   MT19937_jump_times h n m = (mt19937_jump h ^^ n) m \<and>
   ThreeFry32_jump iter t = ThreeFry32_advance (PyInt (sint iter * 2 ^ 64)) t \<and>
   (1 \<le> sint iter \<longrightarrow>
      ThreeFry32_jump iter t =
        (Inr (), ThreeFry32_advance_times (PyInt (2 ^ 64)) (nat (sint iter)) t))"
  using xo_jump_count[of iter poly x] mt_jump_times[of h n m] jump_advance_times[of iter t]
  by (simp add: ThreeFry32_jump_def MT19937_jump_def)

text \<open>
  The claim C3 as stated fails. \<^verbatim>\<open>MT19937.jump(2)\<close> raises TypeError and leaves the state
  as it was, while two calls of \<^verbatim>\<open>jump()\<close> change it. And at \<open>k = 0\<close>, \<^verbatim>\<open>jump(0)\<close> of
  Xoshiro256StarStar runs the loop no time and then resets the cached half-word, while no
  call at all leaves it.
\<close>

theorem jump_count_counterexample:
  "MT19937_jump fill_h [PyInt 2] mt_zero = (Inl TypeError, mt_zero) \<and>
   MT19937_jump_times fill_h 2 mt_zero \<noteq> mt_zero \<and>
   snd (Xoshiro256StarStar_jump rev 0 xo_used) \<noteq> Xoshiro256StarStar_jump_times rev 0 xo_used"
proof -
  have "MT19937_jump_times fill_h 2 mt_zero = mt_zero\<lparr>mt_key := replicate 624 2\<rparr>"
    by (simp add: MT19937_jump_times_def MT19937_jump_def fill_h_def mt_zero_def numeral_2_eq_2)
  moreover have "mt_key (mt_zero\<lparr>mt_key := replicate 624 2\<rparr>) \<noteq> mt_key mt_zero"
    by (simp add: mt_zero_def)
  ultimately have "MT19937_jump_times fill_h 2 mt_zero \<noteq> mt_zero" by metis
  then show ?thesis
    by (simp add: MT19937_jump_def Xoshiro256StarStar_jump_def Xoshiro256StarStar_jump_times_def
        Xoshiro256StarStar_reset_state_variables_def xo_used_def)
qed

theorem jump_algebra_witness:
  "[PyInt 3] \<noteq> [] \<and> MT19937_jump fill_h [PyInt 3] mt_zero = (Inl TypeError, mt_zero) \<and>
   1 \<le> sint (3 :: 64 word) \<and>
   snd (Xoshiro256StarStar_jump rev 3 xo_used) =
     Xoshiro256StarStar_jump_times rev (nat (sint (3 :: 64 word))) xo_used \<and>
   ThreeFry32_jump 3 tf_used =
     (Inr (), ThreeFry32_advance_times (PyInt (2 ^ 64)) (nat (sint (3 :: 64 word))) tf_used) \<and>
   ThreeFry32_jump 3 tf_used =
     (Inr (), tf_zero\<lparr>tf_ctr := [7, 0, 3, 0], tf_key := [1, 2, 3, 4]\<rparr>)"
proof -
  have s: "sint (3 :: 64 word) = 3" by simp
  have h: "1 \<le> sint (3 :: 64 word)" by simp
  have a: "snd (Xoshiro256StarStar_jump rev 3 xo_used) =
      Xoshiro256StarStar_jump_times rev (nat (sint (3 :: 64 word))) xo_used"
    using jump_algebra[where iter = 3 and poly = rev and x = xo_used] h by blast
  have b: "ThreeFry32_jump 3 tf_used =
      (Inr (), ThreeFry32_advance_times (PyInt (2 ^ 64)) (nat (sint (3 :: 64 word))) tf_used)"
    using jump_algebra[where iter = 3 and t = tf_used] h by blast
  have c: "ThreeFry32_jump 3 tf_used =
     (Inr (), tf_zero\<lparr>tf_ctr := [7, 0, 3, 0], tf_key := [1, 2, 3, 4]\<rparr>)"
    by (simp add: ThreeFry32_jump_def ThreeFry32_advance_def threefry32_advance_def tf_used_def
      tf_zero_def upt_0_4 le_words_def ThreeFry32_reset_result update_four)
  have d: "MT19937_jump fill_h [PyInt 3] mt_zero = (Inl TypeError, mt_zero)"
    using jump_algebra[where args = "[PyInt 3]" and h = fill_h and m = mt_zero] by blast
  show ?thesis using h a b c d by blast
qed

end
